theory Spec2Isabelle
  imports Main
begin

section \<open>Values handed to the tool layer\<close>

text \<open>
  Tool arguments arrive as parsed JSON, typed \<open>any\<close> in the source. A number is kept as an
  integer (\<open>JNum\<close>) or as \<open>JFrac\<close>, a finite number for which \<open>Number.isInteger\<close> is false.
  \<open>JUndefined\<close> is what reading an absent property yields. An object is its list of
  own properties; a property is read through \<open>map_of\<close>.

  A string is a list of code units; the model covers the code units 0 to 255 (Latin-1), so
  \<open>length\<close> is the source's \<open>.length\<close> on such strings.
\<close>

datatype js =
    JUndefined
  | JNull
  | JBool bool
  | JNum int
  | JFrac
  | JStr string
  | JArr "js list"
  | JObj "(string \<times> js) list"

text \<open>\<open>typeof v === 'object'\<close> together with truthiness: arrays and objects (\<open>null\<close> is falsy).\<close>

fun isObject :: "js \<Rightarrow> bool" where
  "isObject (JArr _) = True"
| "isObject (JObj _) = True"
| "isObject _ = False"

text \<open>\<open>params.k\<close> for the property names the validators read; none of them is a property
  of an array (or of \<open>Object.prototype\<close>).\<close>

fun getProp :: "js \<Rightarrow> string \<Rightarrow> js" where
  "getProp (JObj fs) k = (case map_of fs k of None \<Rightarrow> JUndefined | Some v \<Rightarrow> v)"
| "getProp _ k = JUndefined"

subsection \<open>String primitives\<close>

text \<open>White space of \<open>String.prototype.trim\<close> and of the regular expression class \<open>\s\<close>,
  within the code units 0 to 255: TAB, LF, VT, FF, CR, SPACE and NBSP.\<close>

definition is_space :: "char \<Rightarrow> bool" where
  "is_space c = (c \<in> set [CHR 0x09, CHR 0x0A, CHR 0x0B, CHR 0x0C, CHR 0x0D, CHR 0x20, CHR 0xA0])"

definition trim :: "string \<Rightarrow> string" where
  "trim s = rev (dropWhile is_space (rev (dropWhile is_space s)))"

text \<open>\<open>toLowerCase\<close>: A to Z, and the Latin-1 capitals U+00C0 to U+00DE without the
  multiplication sign U+00D7, move up by 32.\<close>

definition toLowerChar :: "char \<Rightarrow> char" where
  "toLowerChar c = (let n = (of_char c :: nat) in
     if (65 \<le> n \<and> n \<le> 90) \<or> (192 \<le> n \<and> n \<le> 222 \<and> n \<noteq> 215)
     then char_of (n + 32) else c)"

definition toLowerCase :: "string \<Rightarrow> string" where
  "toLowerCase s = map toLowerChar s"

text \<open>Decimal rendering of an array index inside a template literal.\<close>

definition digit :: "nat \<Rightarrow> char" where
  "digit n = ''0123456789'' ! n"

function toString_nat :: "nat \<Rightarrow> string" where
  "toString_nat n = (if n < 10 then [digit n] else toString_nat (n div 10) @ [digit (n mod 10)])"
  by pat_completeness auto
termination
  by (relation "measure id") auto

declare toString_nat.simps [simp del]

section \<open>Rate limiter (src/utils/rateLimiter.ts)\<close>

text \<open>
  The class holds the recorded timestamps and its two configuration numbers. Every method
  that reads \<open>Date.now()\<close> takes the reading as the argument \<open>now\<close> (milliseconds since the
  epoch); a method that assigns \<open>this.requests\<close> returns the updated object.
\<close>

record RateLimiter =
  requests :: "int list"
  maxRequests :: int
  windowMs :: int

definition RateLimiter_new :: "int \<Rightarrow> int \<Rightarrow> RateLimiter" where
  "RateLimiter_new m w = \<lparr>requests = [], maxRequests = m, windowMs = w\<rparr>"

definition canMakeRequest :: "int \<Rightarrow> RateLimiter \<Rightarrow> bool \<times> RateLimiter" where
  "canMakeRequest now rl =
     (let rl' = rl\<lparr>requests := filter (\<lambda>time. now - time < windowMs rl) (requests rl)\<rparr>
      in (int (length (requests rl')) < maxRequests rl', rl'))"

definition recordRequest :: "int \<Rightarrow> RateLimiter \<Rightarrow> RateLimiter" where
  "recordRequest now rl = rl\<lparr>requests := requests rl @ [now]\<rparr>"

text \<open>\<open>Math.min(...xs)\<close> on a non-empty argument list; \<open>getTimeUntilReset\<close> returns
  before the call when the list is empty, so the first equation is never used.\<close>

fun Math_min :: "int list \<Rightarrow> int" where
  "Math_min [] = 0"
| "Math_min (x # xs) = fold min xs x"

definition getTimeUntilReset :: "int \<Rightarrow> RateLimiter \<Rightarrow> int" where
  "getTimeUntilReset now rl =
     (if length (requests rl) = 0 then 0
      else let oldestRequest = Math_min (requests rl);
               timeUntilReset = windowMs rl - (now - oldestRequest)
           in max 0 timeUntilReset)"

definition getCurrentCount :: "int \<Rightarrow> RateLimiter \<Rightarrow> int \<times> RateLimiter" where
  "getCurrentCount now rl =
     (let rl' = rl\<lparr>requests := filter (\<lambda>time. now - time < windowMs rl) (requests rl)\<rparr>
      in (int (length (requests rl')), rl'))"

definition reset :: "RateLimiter \<Rightarrow> RateLimiter" where
  "reset rl = rl\<lparr>requests := []\<rparr>"

text \<open>A run of \<open>recordRequest\<close> calls, one per clock reading, oldest call first.\<close>

definition recordAll :: "int list \<Rightarrow> RateLimiter \<Rightarrow> RateLimiter" where
  "recordAll ts rl = fold recordRequest ts rl"

section \<open>Parameter validation (src/utils/validation.ts)\<close>

text \<open>\<open>class ValidationError extends Error\<close>: the message and the optional \<open>field\<close>.\<close>

datatype ValidationError = ValidationError (message: string) (field: "string option")

record SearchParams =
  query :: string
  max_results :: "int option"
  region :: "string option"
  safe_search :: "bool option"
  site_restrict :: "string option"
  file_type :: "string option"
  date_range :: "string option"

record BulkSearchParams =
  queries :: "string list"
  max_results_per_query :: "int option"
  b_region :: "string option"
  b_safe_search :: "bool option"

text \<open>\<open>xs.join(', ')\<close>.\<close>

fun join :: "string list \<Rightarrow> string" where
  "join [] = []"
| "join [x] = x"
| "join (x # y # ys) = x @ '', '' @ join (y # ys)"

text \<open>\<open>/^[a-z]{2}$/.test(s)\<close>: exactly two code units, each from a (97) to z (122).\<close>

definition region_pattern :: "string \<Rightarrow> bool" where
  "region_pattern s = (length s = 2 \<and> list_all (\<lambda>c. 97 \<le> (of_char c :: nat) \<and> (of_char c :: nat) \<le> 122) s)"

definition allowedTypes :: "string list" where
  "allowedTypes = [''pdf'', ''doc'', ''docx'', ''ppt'', ''pptx'', ''xls'', ''xlsx'', ''txt'', ''rtf'']"

definition allowedRanges :: "string list" where
  "allowedRanges = [''past_day'', ''past_week'', ''past_month'', ''past_year'']"

text \<open>A \<open>throw\<close> is the left summand; \<open>andThen m f\<close> goes on with \<open>f\<close> unless \<open>m\<close> threw.\<close>

definition andThen :: "'e + 'a \<Rightarrow> ('a \<Rightarrow> 'e + 'b) \<Rightarrow> 'e + 'b" where
  "andThen m f = (case m of Inl e \<Rightarrow> Inl e | Inr x \<Rightarrow> f x)"

text \<open>
  \<open>validateSearchParams\<close> is one function of seven blocks, each of which either throws or
  assigns one field of \<open>validated\<close>. Each block is a function here, named after the field,
  from the value of \<open>params.<field>\<close> to the error thrown or the value assigned
  (\<open>None\<close> where the block leaves the field unset); \<open>validateSearchParams\<close> runs them in
  the source's order and stops at the first error.
\<close>

definition validate_query :: "js \<Rightarrow> ValidationError + string" where
  "validate_query v =
     (case v of
        JStr s \<Rightarrow>
          if s = [] then Inl (ValidationError ''Query is required and must be a string'' (Some ''query''))
          else if length (trim s) = 0 then Inl (ValidationError ''Query cannot be empty'' (Some ''query''))
          else if length s > 500 then Inl (ValidationError ''Query cannot exceed 500 characters'' (Some ''query''))
          else Inr (trim s)
      | _ \<Rightarrow> Inl (ValidationError ''Query is required and must be a string'' (Some ''query'')))"

definition validate_max_results :: "js \<Rightarrow> ValidationError + int option" where
  "validate_max_results v =
     (case v of
        JUndefined \<Rightarrow> Inr None
      | JNum n \<Rightarrow>
          if n < 1 \<or> n > 300
          then Inl (ValidationError ''max_results must be between 1 and 300'' (Some ''max_results''))
          else Inr (Some n)
      | _ \<Rightarrow> Inl (ValidationError ''max_results must be an integer'' (Some ''max_results'')))"

definition validate_region :: "js \<Rightarrow> ValidationError + string option" where
  "validate_region v =
     (case v of
        JUndefined \<Rightarrow> Inr None
      | JStr s \<Rightarrow>
          if \<not> region_pattern s
          then Inl (ValidationError ''region must be a 2-letter country code'' (Some ''region''))
          else Inr (Some (toLowerCase s))
      | _ \<Rightarrow> Inl (ValidationError ''region must be a string'' (Some ''region'')))"

definition validate_safe_search :: "js \<Rightarrow> ValidationError + bool option" where
  "validate_safe_search v =
     (case v of
        JUndefined \<Rightarrow> Inr None
      | JBool b \<Rightarrow> Inr (Some b)
      | _ \<Rightarrow> Inl (ValidationError ''safe_search must be a boolean'' (Some ''safe_search'')))"

definition validate_site_restrict :: "js \<Rightarrow> ValidationError + string option" where
  "validate_site_restrict v =
     (case v of
        JUndefined \<Rightarrow> Inr None
      | JStr s \<Rightarrow>
          if length (trim s) = 0
          then Inl (ValidationError ''site_restrict cannot be empty'' (Some ''site_restrict''))
          else Inr (Some (trim s))
      | _ \<Rightarrow> Inl (ValidationError ''site_restrict must be a string'' (Some ''site_restrict'')))"

definition validate_file_type :: "js \<Rightarrow> ValidationError + string option" where
  "validate_file_type v =
     (case v of
        JUndefined \<Rightarrow> Inr None
      | JStr s \<Rightarrow>
          if toLowerCase s \<notin> set allowedTypes
          then Inl (ValidationError (''file_type must be one of: '' @ join allowedTypes) (Some ''file_type''))
          else Inr (Some (toLowerCase s))
      | _ \<Rightarrow> Inl (ValidationError ''file_type must be a string'' (Some ''file_type'')))"

definition validate_date_range :: "js \<Rightarrow> ValidationError + string option" where
  "validate_date_range v =
     (case v of
        JUndefined \<Rightarrow> Inr None
      | JStr s \<Rightarrow>
          if s \<notin> set allowedRanges
          then Inl (ValidationError (''date_range must be one of: '' @ join allowedRanges) (Some ''date_range''))
          else Inr (Some s)
      | _ \<Rightarrow> Inl (ValidationError ''date_range must be a string'' (Some ''date_range'')))"

definition validateSearchParams :: "js \<Rightarrow> ValidationError + SearchParams" where
  "validateSearchParams params =
     (if \<not> isObject params then Inl (ValidationError ''Parameters must be an object'' None)
      else
        andThen (validate_query (getProp params ''query'')) (\<lambda>q.
        andThen (validate_max_results (getProp params ''max_results'')) (\<lambda>mr.
        andThen (validate_region (getProp params ''region'')) (\<lambda>rg.
        andThen (validate_safe_search (getProp params ''safe_search'')) (\<lambda>ss.
        andThen (validate_site_restrict (getProp params ''site_restrict'')) (\<lambda>sr.
        andThen (validate_file_type (getProp params ''file_type'')) (\<lambda>ft.
        andThen (validate_date_range (getProp params ''date_range'')) (\<lambda>dr.
        Inr \<lparr>query = q, max_results = mr, region = rg, safe_search = ss,
             site_restrict = sr, file_type = ft, date_range = dr\<rparr>))))))))"

text \<open>The \<open>for\<close> loop of \<open>validateBulkSearchParams\<close> over \<open>params.queries\<close>: \<open>i\<close> is the
  index of the head of the remaining elements, \<open>validatedQueries\<close> what was pushed so far.\<close>

fun validateQueriesLoop :: "nat \<Rightarrow> js list \<Rightarrow> string list \<Rightarrow> ValidationError + string list" where
  "validateQueriesLoop i [] validatedQueries = Inr validatedQueries"
| "validateQueriesLoop i (q # rest) validatedQueries =
     (case q of
        JStr s \<Rightarrow>
          if length (trim s) = 0
          then Inl (ValidationError (''Query at index '' @ toString_nat i @ '' cannot be empty'') (Some ''queries''))
          else if length s > 500
          then Inl (ValidationError (''Query at index '' @ toString_nat i @ '' cannot exceed 500 characters'') (Some ''queries''))
          else validateQueriesLoop (Suc i) rest (validatedQueries @ [trim s])
      | _ \<Rightarrow> Inl (ValidationError (''Query at index '' @ toString_nat i @ '' must be a string'') (Some ''queries'')))"

definition validate_max_results_per_query :: "js \<Rightarrow> ValidationError + int option" where
  "validate_max_results_per_query v =
     (case v of
        JUndefined \<Rightarrow> Inr None
      | JNum n \<Rightarrow>
          if n < 1 \<or> n > 50
          then Inl (ValidationError ''max_results_per_query must be between 1 and 50'' (Some ''max_results_per_query''))
          else Inr (Some n)
      | _ \<Rightarrow> Inl (ValidationError ''max_results_per_query must be an integer'' (Some ''max_results_per_query'')))"

definition validateBulkSearchParams :: "js \<Rightarrow> ValidationError + BulkSearchParams" where
  "validateBulkSearchParams params =
     (if \<not> isObject params then Inl (ValidationError ''Parameters must be an object'' None)
      else case getProp params ''queries'' of
        JArr qs \<Rightarrow>
          if length qs = 0 then Inl (ValidationError ''queries array cannot be empty'' (Some ''queries''))
          else if length qs > 20 then Inl (ValidationError ''queries array cannot exceed 20 items'' (Some ''queries''))
          else
            andThen (validateQueriesLoop 0 qs []) (\<lambda>validatedQueries.
            andThen (validate_max_results_per_query (getProp params ''max_results_per_query'')) (\<lambda>mr.
            andThen (validate_region (getProp params ''region'')) (\<lambda>rg.
            andThen (validate_safe_search (getProp params ''safe_search'')) (\<lambda>ss.
            Inr \<lparr>queries = validatedQueries, max_results_per_query = mr,
                 b_region = rg, b_safe_search = ss\<rparr>))))
      | _ \<Rightarrow> Inl (ValidationError ''queries is required and must be an array'' (Some ''queries'')))"

text \<open>\<open>sanitizeQuery\<close>: delete the four characters, replace every maximal run of white
  space by one space, trim.\<close>

definition dangerous :: "char \<Rightarrow> bool" where
  "dangerous c = (c \<in> set [CHR ''<'', CHR ''>'', CHR 0x22, CHR 0x27])"

function normalizeWhitespace :: "string \<Rightarrow> string" where
  "normalizeWhitespace [] = []"
| "normalizeWhitespace (c # cs) =
     (if is_space c then CHR '' '' # normalizeWhitespace (dropWhile is_space cs)
      else c # normalizeWhitespace cs)"
  by pat_completeness auto
termination
  by (relation "measure length") (auto simp: length_dropWhile_le le_imp_less_Suc)

definition sanitizeQuery :: "string \<Rightarrow> string" where
  "sanitizeQuery q = trim (normalizeWhitespace (filter (\<lambda>c. \<not> dangerous c) q))"

text \<open>A validated record handed back to a validator: the object whose own properties are
  the fields that are set.\<close>

definition optProp :: "string \<Rightarrow> ('a \<Rightarrow> js) \<Rightarrow> 'a option \<Rightarrow> (string \<times> js) list" where
  "optProp k mk v = (case v of None \<Rightarrow> [] | Some x \<Rightarrow> [(k, mk x)])"

text \<open>What reading an optional property of such an object gives.\<close>

definition optJs :: "('a \<Rightarrow> js) \<Rightarrow> 'a option \<Rightarrow> js" where
  "optJs mk v = (case v of None \<Rightarrow> JUndefined | Some x \<Rightarrow> mk x)"

definition SearchParams_js :: "SearchParams \<Rightarrow> js" where
  "SearchParams_js p = JObj ([(''query'', JStr (query p))]
      @ optProp ''max_results'' JNum (max_results p)
      @ optProp ''region'' JStr (region p)
      @ optProp ''safe_search'' JBool (safe_search p)
      @ optProp ''site_restrict'' JStr (site_restrict p)
      @ optProp ''file_type'' JStr (file_type p)
      @ optProp ''date_range'' JStr (date_range p))"

definition BulkSearchParams_js :: "BulkSearchParams \<Rightarrow> js" where
  "BulkSearchParams_js p = JObj ([(''queries'', JArr (map JStr (queries p)))]
      @ optProp ''max_results_per_query'' JNum (max_results_per_query p)
      @ optProp ''region'' JStr (b_region p)
      @ optProp ''safe_search'' JBool (b_safe_search p))"

section \<open>Search service (services/openWebNinja.ts)\<close>

subsection \<open>Result types (src/types/api.ts)\<close>

record SearchResult =
  title :: string
  url :: string
  snippet :: string
  position :: nat
  domain :: "string option"
  favicon :: "string option"
  date :: "string option"

record WebSearchResponse =
  results :: "SearchResult list"
  total_results :: int
  search_time :: int
  r_query :: string

record BulkEntry =
  e_query :: string
  e_results :: "SearchResult list"
  e_total_results :: int

record BulkSearchResponse =
  searches :: "BulkEntry list"
  b_search_time :: int

record RapidAPIError =
  err_message :: string
  err_code :: "string option"
  err_status :: "int option"

record RateLimitInfo =
  remaining :: "int option"
  reset_time :: "int option"

record 'a APIResponse =
  success :: bool
  data :: "'a option"
  error :: "RapidAPIError option"
  rate_limit :: "RateLimitInfo option"

subsection \<open>The provider and the clock\<close>

text \<open>
  The request that \<open>client.get('/search', {params})\<close> sends is its four query-string
  parameters. What the awaited call gives back is either a response (\<open>Resolves\<close>: the parsed
  body and the two headers read by \<open>extractRateLimit\<close>) or a thrown error (\<open>Rejects\<close>: a
  transport failure, a non-2xx status, or a body that makes \<open>parseSearchResponse\<close> throw),
  all of which land in the \<open>catch\<close> of \<open>search\<close>.
\<close>

record http_request =
  q :: string
  num :: "string option"
  gl :: "string option"
  safe :: "string option"

record raw_item =
  i_title :: "string option"
  i_url :: "string option"
  i_snippet :: "string option"
  i_domain :: "string option"
  i_favicon :: "string option"
  i_date :: "string option"

record raw_body =
  rb_data :: "raw_item list option"
  rb_total_results :: "int option"
  rb_search_time :: "int option"

record raw_headers =
  x_ratelimit_remaining :: "string option"
  x_ratelimit_reset :: "string option"

record error_response =
  er_message :: "string option"
  er_code :: "string option"
  er_status :: int

record thrown_error =
  t_response :: "error_response option"
  t_message :: "string option"
  t_code :: "string option"

datatype provider_outcome = Resolves raw_body raw_headers | Rejects thrown_error

text \<open>What a run does to the outside, in order: a GET to the provider, or a pause of
  \<open>delay(ms)\<close>.\<close>

datatype event = Get http_request | Delay nat

record world =
  log :: "event list"
  reads :: nat

text \<open>
  The surroundings of a run: the provider answers a request given everything done so far,
  \<open>dateNow k\<close> is the value of the \<open>k\<close>-th reading of \<open>Date.now()\<close>, \<open>parseInt\<close> is the
  built-in (\<open>None\<close> for \<open>NaN\<close>), \<open>inherited k\<close> is the text that a template literal
  gives for \<open>Object.prototype[k]\<close> when \<open>k\<close> names a member of \<open>Object.prototype\<close>
  (\<open>None\<close> for every other \<open>k\<close>), and \<open>looseExceeds c v\<close> is the value of \<open>c + v > 100\<close>
  for an integer \<open>c\<close> and a \<open>v\<close> that is not an integer, by the coercions of the language.
\<close>

record env =
  provider :: "event list \<Rightarrow> http_request \<Rightarrow> provider_outcome"
  dateNow :: "nat \<Rightarrow> int"
  parseInt :: "string \<Rightarrow> int option"
  inherited :: "string \<Rightarrow> string option"
  looseExceeds :: "int \<Rightarrow> js \<Rightarrow> bool"

definition Date_now :: "env \<Rightarrow> world \<Rightarrow> int \<times> world" where
  "Date_now E w = (dateNow E (reads w), w\<lparr>reads := Suc (reads w)\<rparr>)"

subsection \<open>The service\<close>

definition toString_int :: "int \<Rightarrow> string" where
  "toString_int i = (if i < 0 then CHR ''-'' # toString_nat (nat (- i)) else toString_nat (nat i))"

text \<open>\<open>a || b\<close> on optional strings: the empty string and \<open>undefined\<close> are falsy.\<close>

definition truthyStr :: "string option \<Rightarrow> bool" where
  "truthyStr v = (case v of None \<Rightarrow> False | Some s \<Rightarrow> s \<noteq> [])"

definition orElse :: "string option \<Rightarrow> string option \<Rightarrow> string option" where
  "orElse a b = (if truthyStr a then a else b)"

definition orDefault :: "string option \<Rightarrow> string \<Rightarrow> string" where
  "orDefault a d = (case a of None \<Rightarrow> d | Some s \<Rightarrow> if s \<noteq> [] then s else d)"

text \<open>The \<open>for\<close> loop of \<open>parseSearchResponse\<close>; \<open>i\<close> is the index of the head item.\<close>

fun parseItems :: "nat \<Rightarrow> raw_item list \<Rightarrow> SearchResult list" where
  "parseItems i [] = []"
| "parseItems i (item # rest) =
     \<lparr>title = orDefault (i_title item) [], url = orDefault (i_url item) [],
      snippet = orDefault (i_snippet item) [], position = i + 1,
      domain = i_domain item, favicon = i_favicon item, date = i_date item\<rparr>
     # parseItems (Suc i) rest"

definition parseSearchResponse :: "env \<Rightarrow> raw_body \<Rightarrow> string \<Rightarrow> world \<Rightarrow> WebSearchResponse \<times> world" where
  "parseSearchResponse E body originalQuery w =
     (let rs = (case rb_data body of None \<Rightarrow> [] | Some items \<Rightarrow> parseItems 0 items);
          total = (case rb_total_results body of
                     None \<Rightarrow> int (length rs)
                   | Some n \<Rightarrow> if n \<noteq> 0 then n else int (length rs));
          (st, w') = (case rb_search_time body of
                        None \<Rightarrow> Date_now E w
                      | Some t \<Rightarrow> if t \<noteq> 0 then (t, w) else Date_now E w)
      in (\<lparr>results = rs, total_results = total, search_time = st, r_query = originalQuery\<rparr>, w'))"

definition parseError :: "thrown_error \<Rightarrow> RapidAPIError" where
  "parseError err =
     (case t_response err of
        Some r \<Rightarrow>
          \<lparr>err_message = orDefault (orElse (er_message r) (t_message err)) ''API request failed'',
           err_code = orElse (er_code r) (t_code err),
           err_status = Some (er_status r)\<rparr>
      | None \<Rightarrow>
          \<lparr>err_message = orDefault (t_message err) ''Unknown error occurred'',
           err_code = t_code err,
           err_status = None\<rparr>)"

definition extractRateLimit :: "env \<Rightarrow> raw_headers \<Rightarrow> RateLimitInfo" where
  "extractRateLimit E headers =
     \<lparr>remaining = parseInt E (orDefault (x_ratelimit_remaining headers) ''0''),
      reset_time = parseInt E (orDefault (x_ratelimit_reset headers) ''0'')\<rparr>"

definition dateMap :: "(string \<times> string) list" where
  "dateMap = [(''past_day'', ''after:1d''), (''past_week'', ''after:1w''),
              (''past_month'', ''after:1m''), (''past_year'', ''after:1y'')]"

text \<open>\<open>dateMap[dateRange] || null\<close>: an own property of the literal, else a member that the
  literal inherits from \<open>Object.prototype\<close>, else \<open>null\<close>.\<close>

definition mapDateRange :: "env \<Rightarrow> string \<Rightarrow> string option" where
  "mapDateRange E dateRange =
     (case map_of dateMap dateRange of Some v \<Rightarrow> Some v | None \<Rightarrow> inherited E dateRange)"

definition buildRequest :: "SearchParams \<Rightarrow> http_request" where
  "buildRequest params =
     \<lparr>q = query params,
      num = (case max_results params of
               None \<Rightarrow> None
             | Some n \<Rightarrow> if n \<noteq> 0 then Some (toString_int (min n 300)) else None),
      gl = (if truthyStr (region params) then region params else None),
      safe = (case safe_search params of
                None \<Rightarrow> None
              | Some b \<Rightarrow> Some (if b then ''active'' else ''off''))\<rparr>"

definition search :: "env \<Rightarrow> SearchParams \<Rightarrow> world \<Rightarrow> WebSearchResponse APIResponse \<times> world" where
  "search E params w =
     (let req = buildRequest params;
          w1 = w\<lparr>log := log w @ [Get req]\<rparr>
      in case provider E (log w) req of
           Resolves body headers \<Rightarrow>
             (let (d, w2) = parseSearchResponse E body (query params) w1
              in (\<lparr>success = True, data = Some d, error = None,
                   rate_limit = Some (extractRateLimit E headers)\<rparr>, w2))
         | Rejects err \<Rightarrow>
             (\<lparr>success = False, data = None, error = Some (parseError err),
               rate_limit = None\<rparr>, w1))"

text \<open>\<open>xs.indexOf(x)\<close>: the first index holding \<open>x\<close>, \<open>-1\<close> when there is none.\<close>

fun indexOf :: "'a list \<Rightarrow> 'a \<Rightarrow> int" where
  "indexOf [] x = -1"
| "indexOf (y # ys) x = (if y = x then 0 else (let r = indexOf ys x in if r < 0 then -1 else r + 1))"

text \<open>The parameters of one sub-search of \<open>bulkSearch\<close>, and the entry pushed for its result.\<close>

definition subSearchParams :: "BulkSearchParams \<Rightarrow> string \<Rightarrow> SearchParams" where
  "subSearchParams params qry =
     \<lparr>query = qry,
      max_results = Some (case max_results_per_query params of
                            None \<Rightarrow> 10
                          | Some n \<Rightarrow> if n \<noteq> 0 then n else 10),
      region = b_region params, safe_search = b_safe_search params,
      site_restrict = None, file_type = None, date_range = None\<rparr>"

definition entryFor :: "string \<Rightarrow> WebSearchResponse APIResponse \<Rightarrow> BulkEntry" where
  "entryFor qry searchResult =
     (if success searchResult \<and> data searchResult \<noteq> None
      then (case data searchResult of
              Some d \<Rightarrow> \<lparr>e_query = qry, e_results = results d, e_total_results = total_results d\<rparr>
            | None \<Rightarrow> \<lparr>e_query = qry, e_results = [], e_total_results = 0\<rparr>)
      else \<lparr>e_query = qry, e_results = [], e_total_results = 0\<rparr>)"

definition pause :: "BulkSearchParams \<Rightarrow> string \<Rightarrow> world \<Rightarrow> world" where
  "pause params qry w =
     (if indexOf (queries params) qry < int (length (queries params)) - 1
      then w\<lparr>log := log w @ [Delay 100]\<rparr> else w)"

text \<open>The \<open>for ... of\<close> loop of \<open>bulkSearch\<close> over the queries still to run.\<close>

fun bulkSearchLoop :: "env \<Rightarrow> BulkSearchParams \<Rightarrow> string list \<Rightarrow> BulkEntry list \<Rightarrow> world
    \<Rightarrow> BulkEntry list \<times> world" where
  "bulkSearchLoop E params [] acc w = (acc, w)"
| "bulkSearchLoop E params (qry # rest) acc w =
     (let (searchResult, w1) = search E (subSearchParams params qry) w
      in bulkSearchLoop E params rest (acc @ [entryFor qry searchResult]) (pause params qry w1))"

text \<open>Nothing between \<open>try\<close> and \<open>catch\<close> of \<open>bulkSearch\<close> throws (\<open>search\<close> catches its own
  errors), so the \<open>catch\<close> branch has no counterpart here.\<close>

definition bulkSearch :: "env \<Rightarrow> BulkSearchParams \<Rightarrow> world \<Rightarrow> BulkSearchResponse APIResponse \<times> world" where
  "bulkSearch E params w =
     (let (entries, w1) = bulkSearchLoop E params (queries params) [] w;
          (now, w2) = Date_now E w1
      in (\<lparr>success = True, data = Some \<lparr>searches = entries, b_search_time = now\<rparr>,
           error = None, rate_limit = None\<rparr>, w2))"

text \<open>What one pass of the loop of \<open>bulkSearch\<close> does to the outside: the GET of the
  sub-search, and the pause after it unless the query's first index is the last index.\<close>

definition subSearchEvents :: "BulkSearchParams \<Rightarrow> string \<Rightarrow> event list" where
  "subSearchEvents params qry =
     Get (buildRequest (subSearchParams params qry))
     # (if indexOf (queries params) qry < int (length (queries params)) - 1 then [Delay 100] else [])"

text \<open>The results of the sub-searches in the order the loop of \<open>bulkSearch\<close> obtains them.\<close>

fun subResults :: "env \<Rightarrow> BulkSearchParams \<Rightarrow> string list \<Rightarrow> world
    \<Rightarrow> WebSearchResponse APIResponse list" where
  "subResults E params [] w = []"
| "subResults E params (qry # rest) w =
     (let (searchResult, w1) = search E (subSearchParams params qry) w
      in searchResult # subResults E params rest (pause params qry w1))"

text \<open>The query that \<open>advancedSearch\<close> builds in its local variable \<open>query\<close>.\<close>

definition advancedQuery :: "env \<Rightarrow> SearchParams \<Rightarrow> string" where
  "advancedQuery E params =
     (let q0 = query params;
          q1 = (case site_restrict params of
                  None \<Rightarrow> q0
                | Some sr \<Rightarrow> if sr \<noteq> [] then q0 @ '' site:'' @ sr else q0);
          q2 = (case file_type params of
                  None \<Rightarrow> q1
                | Some ft \<Rightarrow> if ft \<noteq> [] then q1 @ '' filetype:'' @ ft else q1);
          q3 = (case date_range params of
                  None \<Rightarrow> q2
                | Some dr \<Rightarrow>
                    if dr = [] then q2
                    else (case mapDateRange E dr of
                            None \<Rightarrow> q2
                          | Some dateParam \<Rightarrow> if dateParam \<noteq> [] then q2 @ '' '' @ dateParam else q2))
      in q3)"

definition advancedSearch :: "env \<Rightarrow> SearchParams \<Rightarrow> world \<Rightarrow> WebSearchResponse APIResponse \<times> world" where
  "advancedSearch E params w = search E (params\<lparr>query := advancedQuery E params\<rparr>) w"

definition healthCheck :: "env \<Rightarrow> world \<Rightarrow> bool \<times> world" where
  "healthCheck E w =
     (let (result, w1) = search E \<lparr>query = ''test'', max_results = Some 1, region = None,
                                   safe_search = None, site_restrict = None, file_type = None,
                                   date_range = None\<rparr> w
      in (success result, w1))"

section \<open>Tool handlers (handlers/webSearch.ts, advancedSearch.ts, bulkSearch.ts)\<close>

text \<open>
  A handler returns one text block and the flag \<open>isError\<close>. The text is kept as the template
  that produced it with the values it interpolates; the markdown rendering of a result set
  (\<open>formatSearchResults\<close> and its two siblings) is kept as the data it renders.
\<close>

datatype tool_text =
    RateLimitExceeded int
  | RateLimitWouldBeExceeded js int
  | ValidationErrorText string
  | UnexpectedErrorText
  | SearchFailed string
  | AdvancedSearchFailed string
  | BulkSearchFailed string
  | NoResultsFound string
  | NoAdvancedResultsFound SearchParams
  | NoBulkResults
  | FormattedSearchResults WebSearchResponse
  | FormattedAdvancedSearchResults WebSearchResponse SearchParams
  | FormattedBulkSearchResults BulkSearchResponse

record tool_response =
  content :: tool_text
  isError :: bool

text \<open>A call of \<open>getTimeUntilReset()\<close> by a handler: the method returns 0 before it reads
  \<open>Date.now()\<close> when no timestamp is stored, and reads the clock once otherwise.\<close>

definition getTimeUntilReset_call :: "env \<Rightarrow> RateLimiter \<Rightarrow> world \<Rightarrow> int \<times> world" where
  "getTimeUntilReset_call E rl w =
     (if length (requests rl) = 0 then (0, w)
      else (let (now, w') = Date_now E w in (getTimeUntilReset now rl, w')))"

text \<open>\<open>Math.ceil(resetTime / 1000)\<close>.\<close>

definition ceilSeconds :: "int \<Rightarrow> int" where
  "ceilSeconds resetTime = - ((- resetTime) div 1000)"

text \<open>\<open>result.error?.message || 'Unknown error'\<close>.\<close>

definition errorMessage :: "'a APIResponse \<Rightarrow> string" where
  "errorMessage result =
     (case error result of
        None \<Rightarrow> ''Unknown error''
      | Some e \<Rightarrow> if err_message e \<noteq> [] then err_message e else ''Unknown error'')"

definition WebSearchHandler_handle ::
    "env \<Rightarrow> js \<Rightarrow> RateLimiter \<times> world \<Rightarrow> tool_response \<times> RateLimiter \<times> world" where
  "WebSearchHandler_handle E params st =
     (let (rl, w) = st;
          (now1, w1) = Date_now E w;
          (admitted, rl1) = canMakeRequest now1 rl
      in if \<not> admitted
         then (let (resetTime, w2) = getTimeUntilReset_call E rl1 w1
               in (\<lparr>content = RateLimitExceeded (ceilSeconds resetTime), isError = True\<rparr>, rl1, w2))
         else case validateSearchParams params of
           Inl e \<Rightarrow> (\<lparr>content = ValidationErrorText (message e), isError = True\<rparr>, rl1, w1)
         | Inr v \<Rightarrow>
             (let validatedParams = v\<lparr>query := sanitizeQuery (query v)\<rparr>;
                  (now2, w2) = Date_now E w1;
                  rl2 = recordRequest now2 rl1;
                  (result, w3) = search E validatedParams w2
              in if \<not> success result
                 then (\<lparr>content = SearchFailed (errorMessage result), isError = True\<rparr>, rl2, w3)
                 else case data result of
                   None \<Rightarrow> (\<lparr>content = NoResultsFound (query validatedParams), isError = False\<rparr>, rl2, w3)
                 | Some d \<Rightarrow>
                     if length (results d) = 0
                     then (\<lparr>content = NoResultsFound (query validatedParams), isError = False\<rparr>, rl2, w3)
                     else (\<lparr>content = FormattedSearchResults d, isError = False\<rparr>, rl2, w3)))"

definition AdvancedSearchHandler_handle ::
    "env \<Rightarrow> js \<Rightarrow> RateLimiter \<times> world \<Rightarrow> tool_response \<times> RateLimiter \<times> world" where
  "AdvancedSearchHandler_handle E params st =
     (let (rl, w) = st;
          (now1, w1) = Date_now E w;
          (admitted, rl1) = canMakeRequest now1 rl
      in if \<not> admitted
         then (let (resetTime, w2) = getTimeUntilReset_call E rl1 w1
               in (\<lparr>content = RateLimitExceeded (ceilSeconds resetTime), isError = True\<rparr>, rl1, w2))
         else case validateSearchParams params of
           Inl e \<Rightarrow> (\<lparr>content = ValidationErrorText (message e), isError = True\<rparr>, rl1, w1)
         | Inr v \<Rightarrow>
             (let validatedParams = v\<lparr>query := sanitizeQuery (query v)\<rparr>;
                  (now2, w2) = Date_now E w1;
                  rl2 = recordRequest now2 rl1;
                  (result, w3) = advancedSearch E validatedParams w2
              in if \<not> success result
                 then (\<lparr>content = AdvancedSearchFailed (errorMessage result), isError = True\<rparr>, rl2, w3)
                 else case data result of
                   None \<Rightarrow> (\<lparr>content = NoAdvancedResultsFound validatedParams, isError = False\<rparr>, rl2, w3)
                 | Some d \<Rightarrow>
                     if length (results d) = 0
                     then (\<lparr>content = NoAdvancedResultsFound validatedParams, isError = False\<rparr>, rl2, w3)
                     else (\<lparr>content = FormattedAdvancedSearchResults d validatedParams, isError = False\<rparr>, rl2, w3)))"

text \<open>Truthiness of a value, for \<open>||\<close>.\<close>

fun truthy :: "js \<Rightarrow> bool" where
  "truthy JUndefined = False"
| "truthy JNull = False"
| "truthy (JBool b) = b"
| "truthy (JNum n) = (n \<noteq> 0)"
| "truthy JFrac = True"
| "truthy (JStr s) = (s \<noteq> [])"
| "truthy (JArr _) = True"
| "truthy (JObj _) = True"

text \<open>\<open>params.queries?.length || 1\<close>, for a \<open>params\<close> that is neither \<open>null\<close> nor
  \<open>undefined\<close>: arrays and strings have a length, an object has the \<open>length\<close> it was given,
  anything else has none.\<close>

definition estimatedRequests :: "js \<Rightarrow> js" where
  "estimatedRequests params =
     (let len = (case getProp params ''queries'' of
                   JArr xs \<Rightarrow> JNum (int (length xs))
                 | JStr s \<Rightarrow> JNum (int (length s))
                 | JObj fs \<Rightarrow> getProp (JObj fs) ''length''
                 | _ \<Rightarrow> JUndefined)
      in if truthy len then len else JNum 1)"

definition exceeds :: "env \<Rightarrow> int \<Rightarrow> js \<Rightarrow> bool" where
  "exceeds E count v = (case v of JNum n \<Rightarrow> count + n > 100 | _ \<Rightarrow> looseExceeds E count v)"

text \<open>Reading \<open>params.queries\<close> of \<open>null\<close> or \<open>undefined\<close> throws a \<open>TypeError\<close>, which the
  handler's \<open>catch\<close> turns into the "Unexpected error" response.\<close>

definition BulkSearchHandler_handle ::
    "env \<Rightarrow> js \<Rightarrow> RateLimiter \<times> world \<Rightarrow> tool_response \<times> RateLimiter \<times> world" where
  "BulkSearchHandler_handle E params st =
     (let (rl, w) = st
      in if params = JUndefined \<or> params = JNull
         then (\<lparr>content = UnexpectedErrorText, isError = True\<rparr>, rl, w)
         else
           (let est = estimatedRequests params;
                (now1, w1) = Date_now E w;
                (count, rl1) = getCurrentCount now1 rl
            in if exceeds E count est
               then (let (resetTime, w2) = getTimeUntilReset_call E rl1 w1
                     in (\<lparr>content = RateLimitWouldBeExceeded est (ceilSeconds resetTime),
                          isError = True\<rparr>, rl1, w2))
               else case validateBulkSearchParams params of
                 Inl e \<Rightarrow> (\<lparr>content = ValidationErrorText (message e), isError = True\<rparr>, rl1, w1)
               | Inr v \<Rightarrow>
                   (let validatedParams = v\<lparr>queries := map sanitizeQuery (queries v)\<rparr>;
                        (result, w2) = bulkSearch E validatedParams w1
                    in if \<not> success result
                       then (\<lparr>content = BulkSearchFailed (errorMessage result), isError = True\<rparr>, rl1, w2)
                       else case data result of
                         None \<Rightarrow> (\<lparr>content = NoBulkResults, isError = False\<rparr>, rl1, w2)
                       | Some d \<Rightarrow>
                           if length (searches d) = 0
                           then (\<lparr>content = NoBulkResults, isError = False\<rparr>, rl1, w2)
                           else (\<lparr>content = FormattedBulkSearchResults d, isError = False\<rparr>, rl1, w2))))"

section \<open>Sample surroundings for the worked examples\<close>

text \<open>A provider that fails every request whose query text is \<open>b\<close> and answers every other
  request with one result; a clock that starts at 1000 and advances by one per reading.\<close>

definition sampleBody :: raw_body where
  "sampleBody = \<lparr>rb_data = Some [\<lparr>i_title = Some ''T'', i_url = Some ''http://t'', i_snippet = None,
                                    i_domain = None, i_favicon = None, i_date = None\<rparr>],
                  rb_total_results = None, rb_search_time = None\<rparr>"

definition sampleEnv :: env where
  "sampleEnv = \<lparr>provider = (\<lambda>h r. if q r = ''b''
                   then Rejects \<lparr>t_response = None, t_message = Some ''timeout'', t_code = None\<rparr>
                   else Resolves sampleBody \<lparr>x_ratelimit_remaining = None, x_ratelimit_reset = None\<rparr>),
                dateNow = (\<lambda>k. 1000 + int k),
                parseInt = (\<lambda>s. None),
                inherited = (\<lambda>k. None),
                looseExceeds = (\<lambda>c v. False)\<rparr>"

definition sampleResult :: SearchResult where
  "sampleResult = \<lparr>title = ''T'', url = ''http://t'', snippet = [], position = 1,
                    domain = None, favicon = None, date = None\<rparr>"

definition world0 :: world where
  "world0 = \<lparr>log = [], reads = 0\<rparr>"

definition sampleBulk :: BulkSearchParams where
  "sampleBulk = \<lparr>queries = [''a'', ''b'', ''c''], max_results_per_query = None,
                  b_region = None, b_safe_search = None\<rparr>"

text \<open>The three endings of the per-element messages of \<open>validateBulkSearchParams\<close>.\<close>

definition indexedSuffixes :: "string list" where
  "indexedSuffixes = ['' must be a string'', '' cannot be empty'', '' cannot exceed 500 characters'']"

section \<open>Properties of the rate limiter\<close>

lemma Math_min_eq: "xs \<noteq> [] \<Longrightarrow> Math_min xs = Min (set xs)"
proof (cases xs)
  case (Cons a list)
  then show ?thesis using Min.set_eq_fold[of a list] by simp
qed simp

lemma requests_recordAll: "requests (recordAll ts rl) = requests rl @ ts"
  unfolding recordAll_def by (induction ts arbitrary: rl) (simp_all add: recordRequest_def)

lemma maxRequests_recordAll: "maxRequests (recordAll ts rl) = maxRequests rl"
  unfolding recordAll_def by (induction ts arbitrary: rl) (simp_all add: recordRequest_def)

lemma windowMs_recordAll: "windowMs (recordAll ts rl) = windowMs rl"
  unfolding recordAll_def by (induction ts arbitrary: rl) (simp_all add: recordRequest_def)

text \<open>
  Claim C1, as stated: after any number \<open>n \<le> maxRequests\<close> of \<open>recordRequest\<close> calls within
  the window, \<open>canMakeRequest\<close> returns false. It fails below the capacity: one recorded
  request against a capacity of 100 is still admitted.
\<close>

theorem canMakeRequest_below_capacity_admits:
  "int (length [1000::int]) \<le> 100 \<and> (1001::int) - 1000 < 60000 \<and>
   fst (canMakeRequest 1001 (recordAll [1000] (RateLimiter_new 100 60000))) = True"
  by (simp add: canMakeRequest_def recordAll_def recordRequest_def RateLimiter_new_def)

text \<open>
  Claim C1, amended: on a fresh limiter, after \<open>n \<ge> maxRequests\<close> calls of \<open>recordRequest\<close>
  that all lie within \<open>windowMs\<close> of the check, \<open>canMakeRequest\<close> returns false; and after
  at least one and at most \<open>maxRequests\<close> calls, once \<open>windowMs\<close> has elapsed past the oldest
  recorded timestamp, \<open>canMakeRequest\<close> returns true.
\<close>

theorem canMakeRequest_at_capacity:
  "(m \<le> int (length ts) \<and> (\<forall>t \<in> set ts. now - t < w)
      \<longrightarrow> fst (canMakeRequest now (recordAll ts (RateLimiter_new m w))) = False)
   \<and> (ts \<noteq> [] \<and> int (length ts) \<le> m \<and> w \<le> now' - Min (set ts)
      \<longrightarrow> fst (canMakeRequest now' (recordAll ts (RateLimiter_new m w))) = True)"
proof (intro conjI impI)
  assume a: "m \<le> int (length ts) \<and> (\<forall>t \<in> set ts. now - t < w)"
  then have "filter (\<lambda>t. now - t < w) ts = ts" by simp
  with a show "fst (canMakeRequest now (recordAll ts (RateLimiter_new m w))) = False"
    by (simp add: canMakeRequest_def requests_recordAll maxRequests_recordAll
        windowMs_recordAll RateLimiter_new_def Let_def)
next
  assume b: "ts \<noteq> [] \<and> int (length ts) \<le> m \<and> w \<le> now' - Min (set ts)"
  then have mem: "Min (set ts) \<in> set ts" by (simp add: Min_in)
  from b have "\<not> (now' - Min (set ts) < w)" by simp
  with mem have "length (filter (\<lambda>t. now' - t < w) ts) < length ts"
    by (intro length_filter_less[of "Min (set ts)"]) auto
  with b show "fst (canMakeRequest now' (recordAll ts (RateLimiter_new m w))) = True"
    by (simp add: canMakeRequest_def requests_recordAll maxRequests_recordAll
        windowMs_recordAll RateLimiter_new_def Let_def)
qed

theorem canMakeRequest_at_capacity_witness:
  "(2::int) \<le> int (length [1000::int, 1200]) \<and> (1500::int) - 1000 < 60000 \<and> (1500::int) - 1200 < 60000
   \<and> fst (canMakeRequest 1500 (recordAll [1000, 1200] (RateLimiter_new 2 60000))) = False
   \<and> [1000::int, 1200] \<noteq> [] \<and> int (length [1000::int, 1200]) \<le> 2
   \<and> (60000::int) \<le> 61000 - Min (set [1000, 1200])
   \<and> fst (canMakeRequest 61000 (recordAll [1000, 1200] (RateLimiter_new 2 60000))) = True"
  using canMakeRequest_at_capacity [of 2 "[1000, 1200]" 1500 60000 61000] by simp

text \<open>
  Claim C8, as stated: with no new records, \<open>getTimeUntilReset\<close> does not increase as time
  advances. It fails across a pruning call: with the timestamps 1000 and 50000 and a window
  of 60000 the value is 1 at 60999; \<open>getCurrentCount\<close> at 61000 records nothing and drops
  1000, and the value at 61000 is then 49000.
\<close>

theorem getTimeUntilReset_rises_after_pruning:
  "(60999::int) \<le> 61000
   \<and> getTimeUntilReset 60999 \<lparr>requests = [1000, 50000], maxRequests = 100, windowMs = 60000\<rparr> = 1
   \<and> requests (snd (getCurrentCount 61000
         \<lparr>requests = [1000, 50000], maxRequests = 100, windowMs = 60000\<rparr>)) = [50000]
   \<and> getTimeUntilReset 61000 (snd (getCurrentCount 61000
         \<lparr>requests = [1000, 50000], maxRequests = 100, windowMs = 60000\<rparr>)) = 49000"
  by (simp add: getTimeUntilReset_def getCurrentCount_def Let_def)

text \<open>
  Claim C8, amended: \<open>getTimeUntilReset\<close> is 0 when nothing is stored and otherwise
  \<open>windowMs - (now - oldest stored timestamp)\<close> floored at 0; on an unchanged timestamp
  sequence it does not increase as the clock advances, and it is 0 once the oldest stored
  timestamp has left the window (\<open>now - oldest \<ge> windowMs\<close>); and a pruning call
  (\<open>canMakeRequest\<close>, \<open>getCurrentCount\<close>) made while the oldest stored timestamp is still
  inside the window leaves the limiter as it was.
\<close>

theorem getTimeUntilReset_value_and_monotone:
  "getTimeUntilReset now0 (rl0\<lparr>requests := []\<rparr>) = 0
   \<and> (requests rl \<noteq> [] \<longrightarrow>
        getTimeUntilReset now rl = max 0 (windowMs rl - (now - Min (set (requests rl)))))
   \<and> (now \<le> now' \<longrightarrow> getTimeUntilReset now' rl \<le> getTimeUntilReset now rl)
   \<and> (requests rl2 \<noteq> [] \<and> windowMs rl2 \<le> now2 - Min (set (requests rl2))
        \<longrightarrow> getTimeUntilReset now2 rl2 = 0)
   \<and> (requests rl \<noteq> [] \<and> now - Min (set (requests rl)) < windowMs rl
        \<longrightarrow> snd (canMakeRequest now rl) = rl \<and> snd (getCurrentCount now rl) = rl)"
proof (intro conjI impI)
  show "getTimeUntilReset now0 (rl0\<lparr>requests := []\<rparr>) = 0"
    by (simp add: getTimeUntilReset_def)
  show "getTimeUntilReset now rl = max 0 (windowMs rl - (now - Min (set (requests rl))))"
    if "requests rl \<noteq> []"
    using that by (simp add: getTimeUntilReset_def Let_def Math_min_eq)
  show "getTimeUntilReset now' rl \<le> getTimeUntilReset now rl" if "now \<le> now'"
    using that by (auto simp add: getTimeUntilReset_def Let_def)
  show "getTimeUntilReset now2 rl2 = 0"
    if "requests rl2 \<noteq> [] \<and> windowMs rl2 \<le> now2 - Min (set (requests rl2))"
    using that by (simp add: getTimeUntilReset_def Let_def Math_min_eq)
next
  assume a: "requests rl \<noteq> [] \<and> now - Min (set (requests rl)) < windowMs rl"
  have "now - t < windowMs rl" if "t \<in> set (requests rl)" for t
  proof -
    from that have "Min (set (requests rl)) \<le> t" by simp
    with a show ?thesis by simp
  qed
  then have keep: "filter (\<lambda>time. now - time < windowMs rl) (requests rl) = requests rl"
    by simp
  show "snd (canMakeRequest now rl) = rl"
    by (simp add: canMakeRequest_def Let_def keep)
  show "snd (getCurrentCount now rl) = rl"
    by (simp add: getCurrentCount_def Let_def keep)
qed

text \<open>
  Claim C8, amended, at the timestamps 1000 and 20000 with a window of 60000: the value is
  31000 at 30000 and 21000 at 40000, a pruning call at 30000 changes nothing, and the
  value is 0 at 61000.
\<close>

theorem getTimeUntilReset_value_and_monotone_witness:
  "getTimeUntilReset 30000 \<lparr>requests = [1000, 20000], maxRequests = 100, windowMs = 60000\<rparr> = 31000
   \<and> (30000::int) \<le> 40000
   \<and> getTimeUntilReset 40000 \<lparr>requests = [1000, 20000], maxRequests = 100, windowMs = 60000\<rparr> = 21000
   \<and> (60000::int) \<le> 61000 - Min (set [1000, 20000])
   \<and> getTimeUntilReset 61000 \<lparr>requests = [1000, 20000], maxRequests = 100, windowMs = 60000\<rparr> = 0
   \<and> (30000::int) - Min (set [1000, 20000]) < 60000
   \<and> snd (canMakeRequest 30000 \<lparr>requests = [1000, 20000], maxRequests = 100, windowMs = 60000\<rparr>)
       = \<lparr>requests = [1000, 20000], maxRequests = 100, windowMs = 60000\<rparr>
   \<and> snd (getCurrentCount 30000 \<lparr>requests = [1000, 20000], maxRequests = 100, windowMs = 60000\<rparr>)
       = \<lparr>requests = [1000, 20000], maxRequests = 100, windowMs = 60000\<rparr>
   \<and> getTimeUntilReset 30000 (\<lparr>requests = [1000, 20000], maxRequests = 100, windowMs = 60000\<rparr>\<lparr>requests := []\<rparr>) = 0"
  using getTimeUntilReset_value_and_monotone
    [of 30000 "\<lparr>requests = [1000, 20000], maxRequests = 100, windowMs = 60000\<rparr>"
        "\<lparr>requests = [1000, 20000], maxRequests = 100, windowMs = 60000\<rparr>" 30000 40000
        "\<lparr>requests = [1000, 20000], maxRequests = 100, windowMs = 60000\<rparr>" 61000]
  by (simp add: getTimeUntilReset_def)

section \<open>Properties of the validators\<close>

subsection \<open>Trimming and lower-casing\<close>

lemma length_trim_le: "length (trim s) \<le> length s"
proof -
  have "length (trim s) \<le> length (dropWhile is_space s)"
    unfolding trim_def using length_dropWhile_le[of is_space "rev (dropWhile is_space s)"] by simp
  also have "\<dots> \<le> length s" by (rule length_dropWhile_le)
  finally show ?thesis .
qed

lemma dropWhile_snoc_keep: "\<not> P a \<Longrightarrow> \<exists>zs. dropWhile P (xs @ [a]) = zs @ [a]"
  by (induction xs) auto

lemma trim_head: "trim s = [] \<or> \<not> is_space (hd (trim s))"
proof (cases "dropWhile is_space s")
  case Nil
  show ?thesis unfolding trim_def Nil by simp
next
  case (Cons a ys)
  then have na: "\<not> is_space a" by (metis dropWhile_eq_Cons_conv)
  from dropWhile_snoc_keep[of is_space a "rev ys"] na obtain zs
    where "dropWhile is_space (rev ys @ [a]) = zs @ [a]" by blast
  with Cons have "trim s = a # rev zs" by (simp add: trim_def)
  with na show ?thesis by simp
qed

lemma trim_idem: "trim (trim s) = trim s"
proof -
  have d: "dropWhile is_space (trim s) = trim s"
    using trim_head[of s] by (simp add: dropWhile_eq_self_iff)
  have "rev (dropWhile is_space (rev (trim s))) = trim s"
    unfolding trim_def by (simp add: dropWhile_idem)
  with d show ?thesis by (simp add: trim_def[of "trim s"])
qed

lemma toLowerChar_lower: "97 \<le> (of_char c :: nat) \<Longrightarrow> of_char c \<le> (122::nat) \<Longrightarrow> toLowerChar c = c"
  by (simp add: toLowerChar_def Let_def)

lemma region_pattern_lower: "region_pattern s \<Longrightarrow> toLowerCase s = s"
  unfolding region_pattern_def toLowerCase_def
  by (auto simp: list_all_iff toLowerChar_lower intro: map_idI)

lemma allowedTypes_lower: "t \<in> set allowedTypes \<Longrightarrow> toLowerCase t = t"
  unfolding allowedTypes_def toLowerCase_def
  by (auto simp: toLowerChar_def Let_def)

subsection \<open>Reading a validated record back\<close>

lemma andThen_Inr_iff: "andThen m f = Inr y \<longleftrightarrow> (\<exists>x. m = Inr x \<and> f x = Inr y)"
  by (cases m) (simp_all add: andThen_def)

lemma andThen_Inr [simp]: "andThen (Inr x) f = f x"
  by (simp add: andThen_def)

lemma andThen_Inl [simp]: "andThen (Inl e) f = Inl e"
  by (simp add: andThen_def)

lemma getProp_Cons:
  "getProp (JObj ((k, x) # rest)) k' = (if k = k' then x else getProp (JObj rest) k')"
  by simp

lemma getProp_optProp:
  "getProp (JObj (optProp k mk v @ rest)) k' =
     (if k = k' \<and> v \<noteq> None then optJs mk v else getProp (JObj rest) k')"
  by (simp add: optProp_def optJs_def split: option.splits)

lemma getProp_optProp_last:
  "getProp (JObj (optProp k mk v)) k' = (if k = k' then optJs mk v else JUndefined)"
  by (simp add: optProp_def optJs_def split: option.splits)

lemma optJs_None: "optJs mk None = JUndefined"
  by (simp add: optJs_def)

lemma getProp_SearchParams_js:
  "getProp (SearchParams_js p) ''query'' = JStr (query p)"
  "getProp (SearchParams_js p) ''max_results'' = optJs JNum (max_results p)"
  "getProp (SearchParams_js p) ''region'' = optJs JStr (region p)"
  "getProp (SearchParams_js p) ''safe_search'' = optJs JBool (safe_search p)"
  "getProp (SearchParams_js p) ''site_restrict'' = optJs JStr (site_restrict p)"
  "getProp (SearchParams_js p) ''file_type'' = optJs JStr (file_type p)"
  "getProp (SearchParams_js p) ''date_range'' = optJs JStr (date_range p)"
  unfolding SearchParams_js_def append_Cons append_Nil
  by (simp_all only: getProp_Cons getProp_optProp getProp_optProp_last)
     (simp_all add: optJs_None)

lemma getProp_BulkSearchParams_js:
  "getProp (BulkSearchParams_js p) ''queries'' = JArr (map JStr (queries p))"
  "getProp (BulkSearchParams_js p) ''max_results_per_query'' = optJs JNum (max_results_per_query p)"
  "getProp (BulkSearchParams_js p) ''region'' = optJs JStr (b_region p)"
  "getProp (BulkSearchParams_js p) ''safe_search'' = optJs JBool (b_safe_search p)"
  unfolding BulkSearchParams_js_def append_Cons append_Nil
  by (simp_all only: getProp_Cons getProp_optProp getProp_optProp_last)
     (simp_all add: optJs_None)


subsection \<open>The blocks of the validators\<close>

lemma validate_query_Inr_iff:
  "validate_query x = Inr t \<longleftrightarrow> (\<exists>s. x = JStr s \<and> trim s \<noteq> [] \<and> length s \<le> 500 \<and> t = trim s)"
  by (cases x) (auto simp: validate_query_def trim_def)

lemma validate_query_again: "validate_query x = Inr t \<Longrightarrow> validate_query (JStr t) = Inr t"
  unfolding validate_query_Inr_iff
  using length_trim_le trim_idem by (metis le_trans)

lemma validate_max_results_again:
  "validate_max_results x = Inr mr \<Longrightarrow> validate_max_results (optJs JNum mr) = Inr mr"
  by (cases x) (auto simp: validate_max_results_def optJs_def split: if_splits)

lemma validate_max_results_per_query_again:
  "validate_max_results_per_query x = Inr mr \<Longrightarrow> validate_max_results_per_query (optJs JNum mr) = Inr mr"
  by (cases x) (auto simp: validate_max_results_per_query_def optJs_def split: if_splits)

lemma validate_region_again:
  "validate_region x = Inr rg \<Longrightarrow> validate_region (optJs JStr rg) = Inr rg"
  by (cases x) (auto simp: validate_region_def optJs_def region_pattern_lower split: if_splits)

lemma validate_safe_search_again:
  "validate_safe_search x = Inr ss \<Longrightarrow> validate_safe_search (optJs JBool ss) = Inr ss"
  by (cases x) (auto simp: validate_safe_search_def optJs_def)

lemma validate_site_restrict_again:
  "validate_site_restrict x = Inr sr \<Longrightarrow> validate_site_restrict (optJs JStr sr) = Inr sr"
  by (cases x) (auto simp: validate_site_restrict_def optJs_def trim_idem split: if_splits)

lemma validate_file_type_again:
  "validate_file_type x = Inr ft \<Longrightarrow> validate_file_type (optJs JStr ft) = Inr ft"
  by (cases x) (auto simp: validate_file_type_def optJs_def allowedTypes_lower split: if_splits)

lemma validate_date_range_again:
  "validate_date_range x = Inr dr \<Longrightarrow> validate_date_range (optJs JStr dr) = Inr dr"
  by (cases x) (auto simp: validate_date_range_def optJs_def split: if_splits)

lemma validateSearchParams_again:
  assumes "validateSearchParams raw = Inr v"
  shows "validateSearchParams (SearchParams_js v) = Inr v"
proof -
  from assms obtain q mr rg ss sr ft dr where
    b: "validate_query (getProp raw ''query'') = Inr q"
       "validate_max_results (getProp raw ''max_results'') = Inr mr"
       "validate_region (getProp raw ''region'') = Inr rg"
       "validate_safe_search (getProp raw ''safe_search'') = Inr ss"
       "validate_site_restrict (getProp raw ''site_restrict'') = Inr sr"
       "validate_file_type (getProp raw ''file_type'') = Inr ft"
       "validate_date_range (getProp raw ''date_range'') = Inr dr"
    and v: "v = \<lparr>query = q, max_results = mr, region = rg, safe_search = ss,
                  site_restrict = sr, file_type = ft, date_range = dr\<rparr>"
    by (auto simp: validateSearchParams_def andThen_Inr_iff split: if_splits)
  have obj: "isObject (SearchParams_js v)" by (simp add: SearchParams_js_def)
  show ?thesis
    unfolding validateSearchParams_def getProp_SearchParams_js
    using obj b
    by (simp add: v validate_query_again validate_max_results_again validate_region_again
        validate_safe_search_again validate_site_restrict_again validate_file_type_again
        validate_date_range_again)
qed

lemma validate_query_Inl_cases:
  "validate_query x = Inl e \<Longrightarrow>
     (\<forall>s. x \<noteq> JStr s) \<or> (\<exists>s. x = JStr s \<and> trim s = []) \<or> (\<exists>s. x = JStr s \<and> trim s \<noteq> [] \<and> length s > 500)"
  by (cases x) (auto simp: validate_query_def trim_def split: if_splits)

lemma loop_accepts:
  "map validate_query qs = map Inr ts \<Longrightarrow> validateQueriesLoop i qs acc = Inr (acc @ ts)"
proof (induction qs arbitrary: ts i acc)
  case Nil
  then show ?case by simp
next
  case (Cons x qs)
  then obtain t ts' where ts: "ts = t # ts'" and x: "validate_query x = Inr t"
    and rest: "map validate_query qs = map Inr ts'"
    by (auto simp: Cons_eq_map_conv)
  from x obtain s where s: "x = JStr s" "trim s \<noteq> []" "length s \<le> 500" "t = trim s"
    by (auto simp: validate_query_Inr_iff)
  show ?case using Cons.IH[OF rest, of "Suc i" "acc @ [t]"] s ts by simp
qed

lemma loop_Inr_conv:
  "validateQueriesLoop i qs acc = Inr r \<Longrightarrow> \<exists>ts. map validate_query qs = map Inr ts \<and> r = acc @ ts"
proof (induction qs arbitrary: i acc)
  case Nil
  then show ?case by simp
next
  case (Cons x qs)
  from Cons.prems obtain s where s: "x = JStr s" "trim s \<noteq> []" "length s \<le> 500"
    and rest: "validateQueriesLoop (Suc i) qs (acc @ [trim s]) = Inr r"
    by (cases x) (auto split: if_splits)
  from Cons.IH[OF rest] obtain ts where ts: "map validate_query qs = map Inr ts" "r = (acc @ [trim s]) @ ts"
    by blast
  have "validate_query x = Inr (trim s)" using s by (simp add: validate_query_Inr_iff)
  with ts show ?case by (intro exI[of _ "trim s # ts"]) simp
qed


lemma loop_rejects_at:
  "k < length qs \<Longrightarrow> map validate_query (take k qs) = map Inr ts \<Longrightarrow> validate_query (qs ! k) = Inl e \<Longrightarrow>
     \<exists>suffix \<in> set indexedSuffixes. validateQueriesLoop i qs acc =
        Inl (ValidationError (''Query at index '' @ toString_nat (i + k) @ suffix) (Some ''queries''))"
proof (induction qs arbitrary: k ts i acc)
  case Nil
  then show ?case by simp
next
  case (Cons x qs)
  show ?case
  proof (cases k)
    case 0
    with Cons.prems have "validate_query x = Inl e" by simp
    from validate_query_Inl_cases[OF this] show ?thesis
      unfolding 0 by (cases x) (auto simp: indexedSuffixes_def)
  next
    case (Suc k')
    with Cons.prems obtain t ts' where x: "validate_query x = Inr t"
      and rest: "map validate_query (take k' qs) = map Inr ts'"
      by (auto simp: Cons_eq_map_conv)
    from x obtain s where s: "x = JStr s" "trim s \<noteq> []" "length s \<le> 500"
      by (auto simp: validate_query_Inr_iff)
    from Cons.prems Suc have k': "k' < length qs" "validate_query (qs ! k') = Inl e" by simp_all
    from Cons.IH[OF k'(1) rest k'(2), of "Suc i" "acc @ [trim s]"] s Suc
    show ?thesis by simp
  qed
qed

lemma validate_query_map_again:
  "map validate_query qs = map Inr ts \<Longrightarrow> map validate_query (map JStr ts) = map Inr ts"
proof (induction qs arbitrary: ts)
  case Nil
  then show ?case by simp
next
  case (Cons x qs)
  then show ?case by (auto simp: Cons_eq_map_conv validate_query_again)
qed

lemma validateBulkSearchParams_again:
  assumes "validateBulkSearchParams raw = Inr b"
  shows "validateBulkSearchParams (BulkSearchParams_js b) = Inr b"
proof -
  from assms obtain qs where qs: "getProp raw ''queries'' = JArr qs"
    by (cases "getProp raw ''queries''") (auto simp: validateBulkSearchParams_def split: if_splits)
  from assms qs obtain vq mr rg ss where
    len: "0 < length qs" "length qs \<le> 20"
    and b: "validateQueriesLoop 0 qs [] = Inr vq"
       "validate_max_results_per_query (getProp raw ''max_results_per_query'') = Inr mr"
       "validate_region (getProp raw ''region'') = Inr rg"
       "validate_safe_search (getProp raw ''safe_search'') = Inr ss"
    and v: "b = \<lparr>queries = vq, max_results_per_query = mr, b_region = rg, b_safe_search = ss\<rparr>"
    by (auto simp: validateBulkSearchParams_def andThen_Inr_iff split: if_splits)
  from loop_Inr_conv[OF b(1)] have m: "map validate_query qs = map Inr vq" by simp
  then have l: "length vq = length qs" by (metis length_map)
  from loop_accepts[OF validate_query_map_again[OF m], of 0 "[]"]
  have again: "validateQueriesLoop 0 (map JStr vq) [] = Inr vq" by simp
  have obj: "isObject (BulkSearchParams_js b)" by (simp add: BulkSearchParams_js_def)
  show ?thesis
    unfolding validateBulkSearchParams_def getProp_BulkSearchParams_js
    using obj b len l again
    by (simp add: v validate_max_results_per_query_again validate_region_again
        validate_safe_search_again)
qed





subsection \<open>Worked inputs\<close>



lemma vq_a: "validate_query (JStr ''a'') = Inr ''a''"
  by (simp add: validate_query_def trim_def is_space_def)

lemma vq_num: "validate_query (JNum 3) = Inl (ValidationError ''Query is required and must be a string'' (Some ''query''))"
  by (simp add: validate_query_def)

lemma index_1: "toString_nat (Suc 0) = ''1''"
  by (simp add: toString_nat.simps digit_def)

lemma ex_bulk_second:
  "validateBulkSearchParams (JObj [(''queries'', JArr [JStr ''a'', JNum 3])])
       = Inl (ValidationError ''Query at index 1 must be a string'' (Some ''queries''))"
  by (simp add: validateBulkSearchParams_def trim_def is_space_def index_1)

lemma ex_search_ok:
  "validateSearchParams (JObj [(''query'', JStr '' cats ''), (''max_results'', JNum 5),
        (''region'', JStr ''us''), (''safe_search'', JBool True), (''site_restrict'', JStr '' x.com''),
        (''file_type'', JStr ''PDF''), (''date_range'', JStr ''past_year'')])
     = Inr \<lparr>query = ''cats'', max_results = Some 5, region = Some ''us'', safe_search = Some True,
            site_restrict = Some ''x.com'', file_type = Some ''pdf'', date_range = Some ''past_year''\<rparr>"
  by (simp add: validateSearchParams_def validate_query_def validate_max_results_def
      validate_region_def validate_safe_search_def validate_site_restrict_def
      validate_file_type_def validate_date_range_def trim_def is_space_def region_pattern_def
      toLowerCase_def toLowerChar_def allowedTypes_def allowedRanges_def char_of_def bit_Suc_0_iff)

lemma ex_bulk_ok:
  "validateBulkSearchParams (JObj [(''queries'', JArr [JStr '' a'', JStr ''b '']), (''max_results_per_query'', JNum 5)])
     = Inr \<lparr>queries = [''a'', ''b''], max_results_per_query = Some 5, b_region = None, b_safe_search = None\<rparr>"
  by (simp add: validateBulkSearchParams_def validate_max_results_per_query_def
      validate_region_def validate_safe_search_def trim_def is_space_def)

lemma ex_bulk_one:
  "validateBulkSearchParams (JObj [(''queries'', JArr [JStr ''a''])])
     = Inr \<lparr>queries = [''a''], max_results_per_query = None, b_region = None, b_safe_search = None\<rparr>"
  by (simp add: validateBulkSearchParams_def validate_max_results_per_query_def
      validate_region_def validate_safe_search_def trim_def is_space_def)

lemma sanitize_a: "sanitizeQuery ''a'' = ''a''"
  by (simp add: sanitizeQuery_def dangerous_def trim_def is_space_def)

lemma ten: "toString_int 10 = ''10''"
  by (simp add: toString_int_def toString_nat.simps digit_def)

lemma ex_search_a:
  "validateSearchParams (JObj [(''query'', JStr ''a'')])
     = Inr \<lparr>query = ''a'', max_results = None, region = None, safe_search = None,
            site_restrict = None, file_type = None, date_range = None\<rparr>"
  by (simp add: validateSearchParams_def validate_query_def validate_max_results_def
      validate_region_def validate_safe_search_def validate_site_restrict_def
      validate_file_type_def validate_date_range_def trim_def is_space_def)

section \<open>Properties of the service and the handlers\<close>

lemma search_log: "log (snd (search E params w)) = log w @ [Get (buildRequest params)]"
  by (simp add: search_def parseSearchResponse_def Date_now_def Let_def
      split: provider_outcome.splits option.splits prod.splits if_splits)

lemma Date_now_log: "log (snd (Date_now E w)) = log w"
  by (simp add: Date_now_def)

lemma getTimeUntilReset_call_log: "log (snd (getTimeUntilReset_call E rl w)) = log w"
  by (simp add: getTimeUntilReset_call_def case_prod_beta Date_now_log)

lemma pause_log:
  "log (pause params qry w) = log w
     @ (if indexOf (queries params) qry < int (length (queries params)) - 1 then [Delay 100] else [])"
  by (simp add: pause_def)

lemma bulk_handler_rejected_log:
  assumes "isObject p" "validateBulkSearchParams p = Inl e"
  shows "log (snd (snd (BulkSearchHandler_handle E p (rl, w)))) = log w"
proof -
  from assms(1) have "p \<noteq> JUndefined" "p \<noteq> JNull" by auto
  then show ?thesis
    unfolding BulkSearchHandler_handle_def
    by (simp add: assms(2) Let_def case_prod_beta Date_now_log getTimeUntilReset_call_log)
qed

lemma bulk_handler_limiter:
  "requests (fst (snd (BulkSearchHandler_handle E p (rl, w)))) =
     (if p = JUndefined \<or> p = JNull then requests rl
      else filter (\<lambda>time. dateNow E (reads w) - time < windowMs rl) (requests rl))"
  unfolding BulkSearchHandler_handle_def
  by (simp add: Let_def case_prod_beta Date_now_def getCurrentCount_def
      split: sum.splits option.splits)

lemma length_subResults: "length (subResults E params qs w) = length qs"
  by (induction qs arbitrary: w) (simp_all add: case_prod_beta Let_def)

lemma bulkSearchLoop_entries:
  "fst (bulkSearchLoop E params qs acc w) = acc @ map2 entryFor qs (subResults E params qs w)"
  by (induction qs arbitrary: acc w) (simp_all add: case_prod_beta Let_def)

lemma bulkSearchLoop_log:
  "log (snd (bulkSearchLoop E params qs acc w)) = log w @ concat (map (subSearchEvents params) qs)"
  by (induction qs arbitrary: acc w)
     (simp_all add: case_prod_beta Let_def search_log pause_log subSearchEvents_def)

lemma bulkSearch_log:
  "log (snd (bulkSearch E params w)) = log w @ concat (map (subSearchEvents params) (queries params))"
  by (simp add: bulkSearch_def case_prod_beta Let_def Date_now_log bulkSearchLoop_log)

lemma subResults_nth:
  "i < length qs \<Longrightarrow>
     \<exists>wi. log wi = log w @ concat (map (subSearchEvents params) (take i qs))
        \<and> subResults E params qs w ! i = fst (search E (subSearchParams params (qs ! i)) wi)"
proof (induction qs arbitrary: i w)
  case Nil
  then show ?case by simp
next
  case (Cons x qs)
  show ?case
  proof (cases i)
    case 0
    then show ?thesis by (auto simp: case_prod_beta Let_def)
  next
    case (Suc j)
    define w' where "w' = pause params x (snd (search E (subSearchParams params x) w))"
    have l: "log w' = log w @ subSearchEvents params x"
      by (simp add: w'_def pause_log search_log subSearchEvents_def)
    from Cons.prems Suc have "j < length qs" by simp
    from Cons.IH[OF this, of w'] obtain wi where
      "log wi = log w' @ concat (map (subSearchEvents params) (take j qs))"
      "subResults E params qs w' ! j = fst (search E (subSearchParams params (qs ! j)) wi)"
      by blast
    with l Suc show ?thesis
      by (intro exI[of _ wi]) (simp add: case_prod_beta Let_def w'_def)
  qed
qed

lemma entryFor_query: "e_query (entryFor qry r) = qry"
  by (simp add: entryFor_def split: option.splits)

lemma entryFor_failed:
  "\<not> success r \<Longrightarrow> entryFor qry r = \<lparr>e_query = qry, e_results = [], e_total_results = 0\<rparr>"
  by (simp add: entryFor_def)

lemma search_success_iff:
  "success (fst (search E p w)) \<longleftrightarrow> (\<forall>err. provider E (log w) (buildRequest p) \<noteq> Rejects err)"
  by (simp add: search_def Let_def case_prod_beta split: provider_outcome.splits)

lemma validated_optional_fields:
  assumes "validateSearchParams raw = Inr p"
  shows "site_restrict p \<noteq> Some []" "file_type p \<noteq> Some []"
    "date_range p = None \<or> (\<exists>d \<in> set allowedRanges. date_range p = Some d)"
proof -
  from assms obtain sr ft dr where
    b: "validate_site_restrict (getProp raw ''site_restrict'') = Inr sr"
       "validate_file_type (getProp raw ''file_type'') = Inr ft"
       "validate_date_range (getProp raw ''date_range'') = Inr dr"
    and v: "site_restrict p = sr" "file_type p = ft" "date_range p = dr"
    by (auto simp: validateSearchParams_def andThen_Inr_iff split: if_splits)
  from b(1) show "site_restrict p \<noteq> Some []" unfolding v
    by (cases "getProp raw ''site_restrict''") (auto simp: validate_site_restrict_def split: if_splits)
  from b(2) show "file_type p \<noteq> Some []" unfolding v
    by (cases "getProp raw ''file_type''")
       (auto simp: validate_file_type_def allowedTypes_def split: if_splits)
  from b(3) show "date_range p = None \<or> (\<exists>d \<in> set allowedRanges. date_range p = Some d)" unfolding v
    by (cases "getProp raw ''date_range''") (auto simp: validate_date_range_def split: if_splits)
qed

lemma ex_subResults_second:
  "\<not> success (subResults sampleEnv sampleBulk [''a'', ''b'', ''c''] world0 ! 1)"
  by (simp add: case_prod_beta Let_def search_success_iff sampleEnv_def buildRequest_def
      subSearchParams_def)

lemma sample_search:
  "fst (search sampleEnv (subSearchParams sampleBulk qry) w) =
     (if qry = ''b''
      then \<lparr>success = False, data = None,
            error = Some \<lparr>err_message = ''timeout'', err_code = None, err_status = None\<rparr>,
            rate_limit = None\<rparr>
      else \<lparr>success = True,
            data = Some \<lparr>results = [sampleResult], total_results = 1,
                          search_time = 1000 + int (reads w), r_query = qry\<rparr>,
            error = None, rate_limit = Some \<lparr>remaining = None, reset_time = None\<rparr>\<rparr>)"
  by (simp add: search_def sampleEnv_def sampleBody_def sampleResult_def subSearchParams_def
      buildRequest_def parseSearchResponse_def parseError_def extractRateLimit_def Date_now_def
      orDefault_def Let_def)

lemma ex_subResults:
  "map2 entryFor [''a'', ''b'', ''c''] (subResults sampleEnv sampleBulk [''a'', ''b'', ''c''] world0)
     = [\<lparr>e_query = ''a'', e_results = [sampleResult], e_total_results = 1\<rparr>,
        \<lparr>e_query = ''b'', e_results = [], e_total_results = 0\<rparr>,
        \<lparr>e_query = ''c'', e_results = [sampleResult], e_total_results = 1\<rparr>]"
  by (simp add: case_prod_beta Let_def sample_search entryFor_def)

section \<open>Statements of the specification, checked against the code\<close>

text \<open>
  Claim C2: a bulk search is not aborted by a failed sub-search. Whatever the provider does,
  \<open>bulkSearch\<close> sends one GET per input query, in input order, with the pauses between
  them; the \<open>i\<close>-th sub-search is \<open>search\<close> on the \<open>i\<close>-th query after the first \<open>i\<close> passes
  (\<open>search\<close> fails exactly when the provider call throws, see \<open>search_success_iff\<close>); the
  outcome is success; the batch holds, in input order, the entry of every sub-search, which
  for a failed one is the query with an empty result list and \<open>total_results\<close> 0.
\<close>

theorem bulkSearch_isolates_failures:
  "(\<exists>d. fst (bulkSearch E params w) = \<lparr>success = True, data = Some d, error = None, rate_limit = None\<rparr>
       \<and> searches d = map2 entryFor (queries params) (subResults E params (queries params) w)
       \<and> length (searches d) = length (queries params)
       \<and> map e_query (searches d) = queries params
       \<and> (\<forall>i < length (queries params).
             \<not> success (subResults E params (queries params) w ! i) \<longrightarrow>
             searches d ! i = \<lparr>e_query = queries params ! i, e_results = [], e_total_results = 0\<rparr>))
   \<and> (\<forall>i < length (queries params).
         \<exists>wi. log wi = log w @ concat (map (subSearchEvents params) (take i (queries params)))
            \<and> subResults E params (queries params) w ! i
                = fst (search E (subSearchParams params (queries params ! i)) wi))
   \<and> log (snd (bulkSearch E params w))
       = log w @ concat (map (subSearchEvents params) (queries params))"
proof (intro conjI)
  define rs where "rs = subResults E params (queries params) w"
  define es where "es = map2 entryFor (queries params) rs"
  have len: "length rs = length (queries params)" by (simp add: rs_def length_subResults)
  have es: "fst (bulkSearchLoop E params (queries params) [] w) = es"
    by (simp add: bulkSearchLoop_entries es_def rs_def)
  have r: "fst (bulkSearch E params w)
      = \<lparr>success = True, data = Some \<lparr>searches = es,
            b_search_time = fst (Date_now E (snd (bulkSearchLoop E params (queries params) [] w)))\<rparr>,
         error = None, rate_limit = None\<rparr>"
    by (simp add: bulkSearch_def case_prod_beta Let_def es)
  have l: "length es = length (queries params)" by (simp add: es_def len)
  have q: "map e_query es = queries params"
    unfolding es_def using len
    by (intro nth_equalityI) (simp_all add: entryFor_query)
  have f: "\<forall>i < length (queries params). \<not> success (rs ! i) \<longrightarrow>
             es ! i = \<lparr>e_query = queries params ! i, e_results = [], e_total_results = 0\<rparr>"
    using len by (simp add: es_def entryFor_failed)
  from r l q f show "\<exists>d. fst (bulkSearch E params w)
         = \<lparr>success = True, data = Some d, error = None, rate_limit = None\<rparr>
       \<and> searches d = map2 entryFor (queries params) (subResults E params (queries params) w)
       \<and> length (searches d) = length (queries params)
       \<and> map e_query (searches d) = queries params
       \<and> (\<forall>i < length (queries params).
             \<not> success (subResults E params (queries params) w ! i) \<longrightarrow>
             searches d ! i = \<lparr>e_query = queries params ! i, e_results = [], e_total_results = 0\<rparr>)"
    unfolding rs_def es_def by auto
  show "\<forall>i < length (queries params).
         \<exists>wi. log wi = log w @ concat (map (subSearchEvents params) (take i (queries params)))
            \<and> subResults E params (queries params) w ! i
                = fst (search E (subSearchParams params (queries params ! i)) wi)"
    using subResults_nth by blast
  show "log (snd (bulkSearch E params w))
       = log w @ concat (map (subSearchEvents params) (queries params))"
    by (rule bulkSearch_log)
qed

text \<open>
  Claim C2 at the three queries \<open>a\<close>, \<open>b\<close>, \<open>c\<close> with a provider that fails the second:
  the second sub-search fails, the batch is a success with the result of \<open>a\<close>, the empty
  entry for \<open>b\<close> and the result of \<open>c\<close>, and the provider was sent \<open>a\<close>, \<open>b\<close> and \<open>c\<close>.
\<close>

theorem bulkSearch_isolates_failures_witness:
  "\<not> success (subResults sampleEnv sampleBulk (queries sampleBulk) world0 ! 1)
   \<and> (\<exists>d. fst (bulkSearch sampleEnv sampleBulk world0)
           = \<lparr>success = True, data = Some d, error = None, rate_limit = None\<rparr>
         \<and> searches d =
             [\<lparr>e_query = ''a'', e_results = [sampleResult], e_total_results = 1\<rparr>,
              \<lparr>e_query = ''b'', e_results = [], e_total_results = 0\<rparr>,
              \<lparr>e_query = ''c'', e_results = [sampleResult], e_total_results = 1\<rparr>])
   \<and> log (snd (bulkSearch sampleEnv sampleBulk world0))
       = [Get \<lparr>q = ''a'', num = Some ''10'', gl = None, safe = None\<rparr>, Delay 100,
          Get \<lparr>q = ''b'', num = Some ''10'', gl = None, safe = None\<rparr>, Delay 100,
          Get \<lparr>q = ''c'', num = Some ''10'', gl = None, safe = None\<rparr>]"
  using bulkSearch_isolates_failures [of sampleEnv sampleBulk world0] ex_subResults_second
    ex_subResults
  by (auto simp: sampleBulk_def world0_def subSearchEvents_def subSearchParams_def
      buildRequest_def truthyStr_def ten)

text \<open>
  Claim C3: for validated parameters (whatever query text they then carry),
  \<open>advancedSearch\<close> is \<open>search\<close> on the query text followed by \<open> site:<site_restrict>\<close> if
  set, then \<open> filetype:<file_type>\<close> if set, then the date fragment of the fixed table if
  \<open>date_range\<close> is set; a validated \<open>date_range\<close> is always one of the four keys.
\<close>

theorem advancedSearch_composes_query:
  "validateSearchParams raw = Inr p \<longrightarrow>
     advancedSearch E (p\<lparr>query := qtext\<rparr>) w =
       search E (p\<lparr>query := qtext
           @ (case site_restrict p of None \<Rightarrow> [] | Some s \<Rightarrow> '' site:'' @ s)
           @ (case file_type p of None \<Rightarrow> [] | Some f \<Rightarrow> '' filetype:'' @ f)
           @ (case date_range p of
                None \<Rightarrow> []
              | Some d \<Rightarrow>
                  if d = ''past_day'' then '' after:1d''
                  else if d = ''past_week'' then '' after:1w''
                  else if d = ''past_month'' then '' after:1m''
                  else if d = ''past_year'' then '' after:1y''
                  else [])\<rparr>) w"
proof
  assume a: "validateSearchParams raw = Inr p"
  note f = validated_optional_fields[OF a]
  have "advancedQuery E (p\<lparr>query := qtext\<rparr>) = qtext
           @ (case site_restrict p of None \<Rightarrow> [] | Some s \<Rightarrow> '' site:'' @ s)
           @ (case file_type p of None \<Rightarrow> [] | Some f \<Rightarrow> '' filetype:'' @ f)
           @ (case date_range p of
                None \<Rightarrow> []
              | Some d \<Rightarrow>
                  if d = ''past_day'' then '' after:1d''
                  else if d = ''past_week'' then '' after:1w''
                  else if d = ''past_month'' then '' after:1m''
                  else if d = ''past_year'' then '' after:1y''
                  else [])"
    using f by (auto simp: advancedQuery_def Let_def mapDateRange_def dateMap_def allowedRanges_def
        split: option.splits)
  then show "advancedSearch E (p\<lparr>query := qtext\<rparr>) w =
       search E (p\<lparr>query := qtext
           @ (case site_restrict p of None \<Rightarrow> [] | Some s \<Rightarrow> '' site:'' @ s)
           @ (case file_type p of None \<Rightarrow> [] | Some f \<Rightarrow> '' filetype:'' @ f)
           @ (case date_range p of
                None \<Rightarrow> []
              | Some d \<Rightarrow>
                  if d = ''past_day'' then '' after:1d''
                  else if d = ''past_week'' then '' after:1w''
                  else if d = ''past_month'' then '' after:1m''
                  else if d = ''past_year'' then '' after:1y''
                  else [])\<rparr>) w"
    by (simp add: advancedSearch_def)
qed

text \<open>
  Claim C3 at \<open>site_restrict = x.com\<close>, \<open>file_type = PDF\<close>, \<open>date_range = past_year\<close>: the
  composed query is \<open>cats site:x.com filetype:pdf after:1y\<close>.
\<close>

theorem advancedSearch_composes_query_witness:
  "validateSearchParams (JObj [(''query'', JStr '' cats ''), (''max_results'', JNum 5),
        (''region'', JStr ''us''), (''safe_search'', JBool True), (''site_restrict'', JStr '' x.com''),
        (''file_type'', JStr ''PDF''), (''date_range'', JStr ''past_year'')])
     = Inr \<lparr>query = ''cats'', max_results = Some 5, region = Some ''us'', safe_search = Some True,
            site_restrict = Some ''x.com'', file_type = Some ''pdf'', date_range = Some ''past_year''\<rparr>
   \<and> advancedSearch sampleEnv \<lparr>query = ''cats'', max_results = Some 5, region = Some ''us'',
            safe_search = Some True, site_restrict = Some ''x.com'', file_type = Some ''pdf'',
            date_range = Some ''past_year''\<rparr> world0
     = search sampleEnv \<lparr>query = ''cats site:x.com filetype:pdf after:1y'', max_results = Some 5,
            region = Some ''us'', safe_search = Some True, site_restrict = Some ''x.com'',
            file_type = Some ''pdf'', date_range = Some ''past_year''\<rparr> world0"
  using advancedSearch_composes_query [of "JObj [(''query'', JStr '' cats ''), (''max_results'', JNum 5),
        (''region'', JStr ''us''), (''safe_search'', JBool True), (''site_restrict'', JStr '' x.com''),
        (''file_type'', JStr ''PDF''), (''date_range'', JStr ''past_year'')]"
      "\<lparr>query = ''cats'', max_results = Some 5, region = Some ''us'', safe_search = Some True,
            site_restrict = Some ''x.com'', file_type = Some ''pdf'', date_range = Some ''past_year''\<rparr>"
      sampleEnv "''cats''" world0]
    ex_search_ok
  by simp

text \<open>
  Claim C4 says that \<open>region = US\<close> is accepted and normalized to \<open>us\<close>. The code tests the
  raw value against the lower-case pattern before it lower-cases it, so \<open>US\<close> is rejected
  like \<open>usa\<close>, and only \<open>us\<close> passes.
\<close>

theorem region_uppercase_rejected: 
  "validateSearchParams (JObj [(''query'', JStr ''news''), (''region'', JStr ''US'')])
     = Inl (ValidationError ''region must be a 2-letter country code'' (Some ''region''))
   \<and> validateSearchParams (JObj [(''query'', JStr ''news''), (''region'', JStr ''usa'')])
     = Inl (ValidationError ''region must be a 2-letter country code'' (Some ''region''))
   \<and> validateSearchParams (JObj [(''query'', JStr ''news''), (''region'', JStr ''us'')])
     = Inr \<lparr>query = ''news'', max_results = None, region = Some ''us'', safe_search = None,
            site_restrict = None, file_type = None, date_range = None\<rparr>"
  by (simp add: validateSearchParams_def validate_query_def validate_max_results_def
      validate_region_def validate_safe_search_def validate_site_restrict_def
      validate_file_type_def validate_date_range_def trim_def is_space_def region_pattern_def
      toLowerCase_def toLowerChar_def)

text \<open>
  Claim C5 says that every admitted invocation records its requests in the limiter. The bulk
  handler issues the provider call of an admitted one-query batch and leaves the limiter
  without any timestamp, whereas the single-search handler records one before its call.
\<close>

theorem bulk_handler_never_records:
  "requests (fst (snd (BulkSearchHandler_handle E (JObj [(''queries'', JArr [JStr ''a''])])
       (RateLimiter_new 100 60000, w)))) = []
   \<and> log (snd (snd (BulkSearchHandler_handle E (JObj [(''queries'', JArr [JStr ''a''])])
       (RateLimiter_new 100 60000, w))))
     = log w @ [Get \<lparr>q = ''a'', num = Some ''10'', gl = None, safe = None\<rparr>]
   \<and> requests (fst (snd (WebSearchHandler_handle E (JObj [(''query'', JStr ''a'')])
       (RateLimiter_new 100 60000, w)))) = [dateNow E (Suc (reads w))]"
proof (intro conjI)
  show "requests (fst (snd (BulkSearchHandler_handle E (JObj [(''queries'', JArr [JStr ''a''])])
       (RateLimiter_new 100 60000, w)))) = []"
    by (simp add: bulk_handler_limiter RateLimiter_new_def)
  show "log (snd (snd (BulkSearchHandler_handle E (JObj [(''queries'', JArr [JStr ''a''])])
       (RateLimiter_new 100 60000, w))))
     = log w @ [Get \<lparr>q = ''a'', num = Some ''10'', gl = None, safe = None\<rparr>]"
    unfolding BulkSearchHandler_handle_def ex_bulk_one
    by (simp add: Let_def case_prod_beta estimatedRequests_def exceeds_def getCurrentCount_def
        RateLimiter_new_def sanitize_a bulkSearch_def search_log Date_now_log pause_def
        subSearchParams_def buildRequest_def truthyStr_def ten split: option.splits)
  show "requests (fst (snd (WebSearchHandler_handle E (JObj [(''query'', JStr ''a'')])
       (RateLimiter_new 100 60000, w)))) = [dateNow E (Suc (reads w))]"
    unfolding WebSearchHandler_handle_def ex_search_a
    by (simp add: Let_def case_prod_beta canMakeRequest_def RateLimiter_new_def recordRequest_def
        Date_now_def split: option.splits)
qed




text \<open>
  Claim C7: \<open>validateBulkSearchParams\<close> rejects more than 20 queries, and the bulk handler
  then issues no provider call; it accepts 1 to 20 queries that each pass the single-query
  rules of \<open>validate_query\<close> (a string, non-empty after trimming, at most 500 long) and
  goes on to the remaining fields with the trimmed queries; and when the element at index
  \<open>k\<close> is the first to break these rules, the message is
  \<open>Query at index k\<close> followed by one of the three endings.
\<close>

theorem validateBulkSearchParams_bounds:
  "(isObject p1 \<and> getProp p1 ''queries'' = JArr qs1 \<and> 20 < length qs1 \<longrightarrow>
        validateBulkSearchParams p1
          = Inl (ValidationError ''queries array cannot exceed 20 items'' (Some ''queries''))
        \<and> log (snd (snd (BulkSearchHandler_handle E p1 (rl, w)))) = log w)
   \<and> (isObject p2 \<and> getProp p2 ''queries'' = JArr qs2 \<and> 0 < length qs2 \<and> length qs2 \<le> 20
        \<and> map validate_query qs2 = map Inr ts \<longrightarrow>
        validateBulkSearchParams p2
          = andThen (validate_max_results_per_query (getProp p2 ''max_results_per_query'')) (\<lambda>mr.
            andThen (validate_region (getProp p2 ''region'')) (\<lambda>rg.
            andThen (validate_safe_search (getProp p2 ''safe_search'')) (\<lambda>ss.
            Inr \<lparr>queries = ts, max_results_per_query = mr, b_region = rg, b_safe_search = ss\<rparr>))))
   \<and> (isObject p3 \<and> getProp p3 ''queries'' = JArr qs3 \<and> length qs3 \<le> 20 \<and> k < length qs3
        \<and> map validate_query (take k qs3) = map Inr ts' \<and> validate_query (qs3 ! k) = Inl e \<longrightarrow>
        (\<exists>suffix \<in> set indexedSuffixes. validateBulkSearchParams p3
           = Inl (ValidationError (''Query at index '' @ toString_nat k @ suffix) (Some ''queries''))))"
proof (intro impI conjI; (elim conjE)?)
  assume p: "isObject p1" "getProp p1 ''queries'' = JArr qs1" and big: "20 < length qs1"
  then show v: "validateBulkSearchParams p1
          = Inl (ValidationError ''queries array cannot exceed 20 items'' (Some ''queries''))"
    by (auto simp: validateBulkSearchParams_def)
  from bulk_handler_rejected_log[OF p(1) v]
  show "log (snd (snd (BulkSearchHandler_handle E p1 (rl, w)))) = log w" .
next
  assume p: "isObject p2" "getProp p2 ''queries'' = JArr qs2"
    and len: "0 < length qs2" "length qs2 \<le> 20" and ok: "map validate_query qs2 = map Inr ts"
  from loop_accepts[OF ok, of 0 "[]"] p len
  show "validateBulkSearchParams p2
          = andThen (validate_max_results_per_query (getProp p2 ''max_results_per_query'')) (\<lambda>mr.
            andThen (validate_region (getProp p2 ''region'')) (\<lambda>rg.
            andThen (validate_safe_search (getProp p2 ''safe_search'')) (\<lambda>ss.
            Inr \<lparr>queries = ts, max_results_per_query = mr, b_region = rg, b_safe_search = ss\<rparr>)))"
    by (auto simp: validateBulkSearchParams_def)
next
  assume p: "isObject p3" "getProp p3 ''queries'' = JArr qs3"
    and len: "length qs3 \<le> 20" and k: "k < length qs3"
    and pre: "map validate_query (take k qs3) = map Inr ts'"
    and bad: "validate_query (qs3 ! k) = Inl e"
  from loop_rejects_at[OF k pre bad, of 0 "[]"] obtain suffix where
    s: "suffix \<in> set indexedSuffixes"
       "validateQueriesLoop 0 qs3 [] =
          Inl (ValidationError (''Query at index '' @ toString_nat k @ suffix) (Some ''queries''))"
    by auto
  from k have "qs3 \<noteq> []" by auto
  with s(2) p len have "validateBulkSearchParams p3
      = Inl (ValidationError (''Query at index '' @ toString_nat k @ suffix) (Some ''queries''))"
    by (simp add: validateBulkSearchParams_def)
  with s(1) show "\<exists>suffix \<in> set indexedSuffixes. validateBulkSearchParams p3
           = Inl (ValidationError (''Query at index '' @ toString_nat k @ suffix) (Some ''queries''))"
    by blast
qed

text \<open>
  Claim C7 at 21 queries (rejected, no provider call), at 20 queries (accepted) and at a
  second element that is a number (rejected with index 1).
\<close>

theorem validateBulkSearchParams_bounds_witness:
  "20 < length (replicate 21 (JStr ''a''))
   \<and> validateBulkSearchParams (JObj [(''queries'', JArr (replicate 21 (JStr ''a'')))])
       = Inl (ValidationError ''queries array cannot exceed 20 items'' (Some ''queries''))
   \<and> log (snd (snd (BulkSearchHandler_handle sampleEnv (JObj [(''queries'', JArr (replicate 21 (JStr ''a'')))])
         (RateLimiter_new 100 60000, world0)))) = []
   \<and> length (replicate 20 (JStr ''a'')) = 20
   \<and> map validate_query (replicate 20 (JStr ''a'')) = map Inr (replicate 20 ''a'')
   \<and> validateBulkSearchParams (JObj [(''queries'', JArr (replicate 20 (JStr ''a'')))])
       = Inr \<lparr>queries = replicate 20 ''a'', max_results_per_query = None, b_region = None, b_safe_search = None\<rparr>
   \<and> validate_query ([JStr ''a'', JNum 3] ! 1)
       = Inl (ValidationError ''Query is required and must be a string'' (Some ''query''))
   \<and> validateBulkSearchParams (JObj [(''queries'', JArr [JStr ''a'', JNum 3])])
       = Inl (ValidationError ''Query at index 1 must be a string'' (Some ''queries''))"
  using validateBulkSearchParams_bounds [of "JObj [(''queries'', JArr (replicate 21 (JStr ''a'')))]" "replicate 21 (JStr ''a'')"
      sampleEnv "RateLimiter_new 100 60000" world0
      "JObj [(''queries'', JArr (replicate 20 (JStr ''a'')))]" "replicate 20 (JStr ''a'')"
      "replicate 20 ''a''"
      "JObj [(''queries'', JArr [JStr ''a'', JNum 3])]" "[JStr ''a'', JNum 3]" 1 "[''a'']"
      "ValidationError ''Query is required and must be a string'' (Some ''query'')"]
  by (simp add: world0_def vq_a vq_num ex_bulk_second validate_max_results_per_query_def
      validate_region_def validate_safe_search_def)

text \<open>
  Claim C9: validation is idempotent. A record returned by \<open>validateSearchParams\<close>
  (by \<open>validateBulkSearchParams\<close>), handed back as an object, is accepted by the same
  validator and returned unchanged.
\<close>

theorem validation_idempotent:
  "(validateSearchParams raw = Inr v \<longrightarrow> validateSearchParams (SearchParams_js v) = Inr v)
   \<and> (validateBulkSearchParams raw' = Inr b \<longrightarrow> validateBulkSearchParams (BulkSearchParams_js b) = Inr b)"
  using validateSearchParams_again validateBulkSearchParams_again by blast

text \<open>
  Claim C9 at a search input and a bulk input that both need normalizing.
\<close>

theorem validation_idempotent_witness:
  "validateSearchParams (JObj [(''query'', JStr '' cats ''), (''max_results'', JNum 5),
        (''region'', JStr ''us''), (''safe_search'', JBool True), (''site_restrict'', JStr '' x.com''),
        (''file_type'', JStr ''PDF''), (''date_range'', JStr ''past_year'')])
     = Inr \<lparr>query = ''cats'', max_results = Some 5, region = Some ''us'', safe_search = Some True,
            site_restrict = Some ''x.com'', file_type = Some ''pdf'', date_range = Some ''past_year''\<rparr>
   \<and> validateSearchParams (SearchParams_js \<lparr>query = ''cats'', max_results = Some 5, region = Some ''us'',
            safe_search = Some True, site_restrict = Some ''x.com'', file_type = Some ''pdf'',
            date_range = Some ''past_year''\<rparr>)
     = Inr \<lparr>query = ''cats'', max_results = Some 5, region = Some ''us'', safe_search = Some True,
            site_restrict = Some ''x.com'', file_type = Some ''pdf'', date_range = Some ''past_year''\<rparr>
   \<and> validateBulkSearchParams (JObj [(''queries'', JArr [JStr '' a'', JStr ''b '']), (''max_results_per_query'', JNum 5)])
     = Inr \<lparr>queries = [''a'', ''b''], max_results_per_query = Some 5, b_region = None, b_safe_search = None\<rparr>
   \<and> validateBulkSearchParams (BulkSearchParams_js \<lparr>queries = [''a'', ''b''], max_results_per_query = Some 5,
            b_region = None, b_safe_search = None\<rparr>)
     = Inr \<lparr>queries = [''a'', ''b''], max_results_per_query = Some 5, b_region = None, b_safe_search = None\<rparr>"
  using validation_idempotent [of "JObj [(''query'', JStr '' cats ''), (''max_results'', JNum 5),
        (''region'', JStr ''us''), (''safe_search'', JBool True), (''site_restrict'', JStr '' x.com''),
        (''file_type'', JStr ''PDF''), (''date_range'', JStr ''past_year'')]"
      "\<lparr>query = ''cats'', max_results = Some 5, region = Some ''us'', safe_search = Some True,
            site_restrict = Some ''x.com'', file_type = Some ''pdf'', date_range = Some ''past_year''\<rparr>"
      "JObj [(''queries'', JArr [JStr '' a'', JStr ''b '']), (''max_results_per_query'', JNum 5)]"
      "\<lparr>queries = [''a'', ''b''], max_results_per_query = Some 5, b_region = None, b_safe_search = None\<rparr>"]
    ex_search_ok ex_bulk_ok
  by simp

text \<open>
  Claim C10: the query made of the four characters \<open><\<close>, \<open>>\<close>, double quote and single quote
  passes \<open>validateSearchParams\<close>, \<open>sanitizeQuery\<close> turns it into the empty string, and the
  single-search handler, on a fresh limiter, then sends the provider a request whose query
  text is empty.
\<close>

theorem sanitized_query_may_be_empty:
  "validateSearchParams (JObj [(''query'', JStr [CHR ''<'', CHR ''>'', CHR 0x22, CHR 0x27])])
     = Inr \<lparr>query = [CHR ''<'', CHR ''>'', CHR 0x22, CHR 0x27], max_results = None, region = None,
            safe_search = None, site_restrict = None, file_type = None, date_range = None\<rparr>
   \<and> sanitizeQuery [CHR ''<'', CHR ''>'', CHR 0x22, CHR 0x27] = []
   \<and> log (snd (snd (WebSearchHandler_handle E
         (JObj [(''query'', JStr [CHR ''<'', CHR ''>'', CHR 0x22, CHR 0x27])])
         (RateLimiter_new 100 60000, w))))
       = log w @ [Get \<lparr>q = [], num = None, gl = None, safe = None\<rparr>]"
proof -
  have v: "validateSearchParams (JObj [(''query'', JStr [CHR ''<'', CHR ''>'', CHR 0x22, CHR 0x27])])
     = Inr \<lparr>query = [CHR ''<'', CHR ''>'', CHR 0x22, CHR 0x27], max_results = None, region = None,
            safe_search = None, site_restrict = None, file_type = None, date_range = None\<rparr>"
    by (simp add: validateSearchParams_def validate_query_def validate_max_results_def
      validate_region_def validate_safe_search_def validate_site_restrict_def
      validate_file_type_def validate_date_range_def trim_def is_space_def)
  have s: "sanitizeQuery [CHR ''<'', CHR ''>'', CHR 0x22, CHR 0x27] = []"
    by (simp add: sanitizeQuery_def dangerous_def trim_def)
  have h: "log (snd (snd (WebSearchHandler_handle E
         (JObj [(''query'', JStr [CHR ''<'', CHR ''>'', CHR 0x22, CHR 0x27])])
         (RateLimiter_new 100 60000, w))))
       = log w @ [Get \<lparr>q = [], num = None, gl = None, safe = None\<rparr>]"
    unfolding WebSearchHandler_handle_def v
    by (simp add: s canMakeRequest_def RateLimiter_new_def Let_def case_prod_beta
        search_log Date_now_log buildRequest_def truthyStr_def split: option.splits)
  from v s h show ?thesis by simp
qed

end
